theory Spec2Isabelle
  imports Main "HOL-Library.Sublist"
begin

section \<open>Python values as the adapter sees them\<close>

text \<open>
  The adapter of \<^verbatim>\<open>google_maps.py\<close> reads the decoded JSON body of an HTTP response
  with dynamic lookups. A decoded body is a value of \<open>json\<close>: \<^verbatim>\<open>None\<close>, a bool, an int,
  a float, a str, a list or a dict with str keys (an association list in insertion
  order). One \<open>char\<close> stands for one character of a Python str.

  Python floats are not modelled: their type is the parameter \<open>'f\<close>, and what the
  program does with a float (\<^verbatim>\<open>str\<close>, truth value, conversion from int, product,
  \<^verbatim>\<open>format(x, '.2f')\<close>) is a field of \<open>float_ops\<close>.
\<close>

datatype 'f json =
    JNull
  | JBool bool
  | JInt int
  | JFloat 'f
  | JStr string
  | JArr "'f json list"
  | JObj "(string \<times> 'f json) list"

datatype py_error =
    KeyError | IndexError | TypeError | AttributeError | ValueError | OverflowError

record 'f float_ops =
  float_str :: "'f \<Rightarrow> string"
  float_nonzero :: "'f \<Rightarrow> bool"
  float_of_int :: "int \<Rightarrow> 'f option"
  float_mul :: "'f \<Rightarrow> 'f \<Rightarrow> 'f"
  float_fmt2 :: "'f \<Rightarrow> string"
  feet_per_metre :: "'f"

text \<open>\<open>bindE\<close> sequences two steps, the first exception raised ending the run.\<close>

definition bindE :: "'e + 'a \<Rightarrow> ('a \<Rightarrow> 'e + 'b) \<Rightarrow> 'e + 'b" where
  "bindE m f = (case m of Inl e \<Rightarrow> Inl e | Inr v \<Rightarrow> f v)"

subsection \<open>str and repr\<close>

definition digit_char :: "nat \<Rightarrow> char" where
  "digit_char d = char_of (48 + d)"

fun str_nat :: "nat \<Rightarrow> string" where
  "str_nat n = (if n < 10 then [digit_char n] else str_nat (n div 10) @ [digit_char (n mod 10)])"

declare str_nat.simps [simp del]

definition str_int :: "int \<Rightarrow> string" where
  "str_int i = (if i < 0 then CHR ''-'' # str_nat (nat (- i)) else str_nat (nat i))"

definition hex_char :: "nat \<Rightarrow> char" where
  "hex_char d = (if d < 10 then char_of (48 + d) else char_of (87 + d))"

definition printable :: "char \<Rightarrow> bool" where
  "printable c = (let n = of_char c :: nat in
     (32 \<le> n \<and> n < 127) \<or> (161 \<le> n \<and> n \<noteq> 173))"

definition repr_char :: "char \<Rightarrow> char \<Rightarrow> string" where
  "repr_char q c =
     (if c = q \<or> c = CHR 0x5C then [CHR 0x5C, c]
      else if c = CHR 0x09 then [CHR 0x5C, CHR ''t'']
      else if c = CHR 0x0A then [CHR 0x5C, CHR ''n'']
      else if c = CHR 0x0D then [CHR 0x5C, CHR ''r'']
      else if printable c then [c]
      else [CHR 0x5C, CHR ''x'', hex_char (of_char c div 16), hex_char (of_char c mod 16)])"

text \<open>\<^verbatim>\<open>repr\<close> of a str: double quotes only when the text has a single quote and no
  double quote.\<close>

definition repr_str :: "string \<Rightarrow> string" where
  "repr_str s =
     (let q = (if CHR 0x27 \<in> set s \<and> CHR 0x22 \<notin> set s then CHR 0x22 else CHR 0x27)
      in q # concat (map (repr_char q) s) @ [q])"

fun join :: "string \<Rightarrow> string list \<Rightarrow> string" where
  "join sep [] = []"
| "join sep [x] = x"
| "join sep (x # y # ys) = x @ sep @ join sep (y # ys)"

fun py_repr :: "'f float_ops \<Rightarrow> 'f json \<Rightarrow> string" where
  "py_repr fo JNull = ''None''"
| "py_repr fo (JBool b) = (if b then ''True'' else ''False'')"
| "py_repr fo (JInt i) = str_int i"
| "py_repr fo (JFloat x) = float_str fo x"
| "py_repr fo (JStr s) = repr_str s"
| "py_repr fo (JArr xs) = ''['' @ join '', '' (map (py_repr fo) xs) @ '']''"
| "py_repr fo (JObj kvs) =
     ''{'' @ join '', '' (map (\<lambda>(k, v). repr_str k @ '': '' @ py_repr fo v) kvs) @ ''}''"

text \<open>\<^verbatim>\<open>str(v)\<close>, which is what an f-string field without a format writes.\<close>

definition py_str :: "'f float_ops \<Rightarrow> 'f json \<Rightarrow> string" where
  "py_str fo v = (case v of JStr s \<Rightarrow> s | _ \<Rightarrow> py_repr fo v)"

subsection \<open>Truth value, lookup, indexing, slicing, iteration\<close>

fun truthy :: "'f float_ops \<Rightarrow> 'f json \<Rightarrow> bool" where
  "truthy fo JNull = False"
| "truthy fo (JBool b) = b"
| "truthy fo (JInt i) = (i \<noteq> 0)"
| "truthy fo (JFloat x) = float_nonzero fo x"
| "truthy fo (JStr s) = (s \<noteq> [])"
| "truthy fo (JArr xs) = (xs \<noteq> [])"
| "truthy fo (JObj kvs) = (kvs \<noteq> [])"

text \<open>\<^verbatim>\<open>v.get(k, d)\<close>: only a dict has the method.\<close>

fun py_get :: "'f json \<Rightarrow> string \<Rightarrow> 'f json \<Rightarrow> py_error + 'f json" where
  "py_get (JObj kvs) k d = Inr (case map_of kvs k of None \<Rightarrow> d | Some v \<Rightarrow> v)"
| "py_get _ k d = Inl AttributeError"

text \<open>\<^verbatim>\<open>v[k]\<close> with a str key.\<close>

fun py_item :: "'f json \<Rightarrow> string \<Rightarrow> py_error + 'f json" where
  "py_item (JObj kvs) k = (case map_of kvs k of None \<Rightarrow> Inl KeyError | Some v \<Rightarrow> Inr v)"
| "py_item _ k = Inl TypeError"

text \<open>\<^verbatim>\<open>v[i]\<close> with an index \<open>i \<ge> 0\<close>. The keys of a decoded dict are strs, so an int
  is never among them.\<close>

fun py_index :: "'f json \<Rightarrow> nat \<Rightarrow> py_error + 'f json" where
  "py_index (JArr xs) i = (if i < length xs then Inr (xs ! i) else Inl IndexError)"
| "py_index (JStr s) i = (if i < length s then Inr (JStr [s ! i]) else Inl IndexError)"
| "py_index (JObj kvs) i = Inl KeyError"
| "py_index _ i = Inl TypeError"

text \<open>\<^verbatim>\<open>v[:n]\<close>. A dict refuses a slice (TypeError up to Python 3.11, KeyError from
  3.12 on; the model keeps the former).\<close>

fun py_slice :: "'f json \<Rightarrow> nat \<Rightarrow> py_error + 'f json" where
  "py_slice (JArr xs) n = Inr (JArr (take n xs))"
| "py_slice (JStr s) n = Inr (JStr (take n s))"
| "py_slice _ n = Inl TypeError"

text \<open>The items a \<^verbatim>\<open>for\<close> loop (or \<^verbatim>\<open>enumerate\<close>, or \<^verbatim>\<open>join\<close>) draws from a value.\<close>

fun py_iter :: "'f json \<Rightarrow> py_error + 'f json list" where
  "py_iter (JArr xs) = Inr xs"
| "py_iter (JStr s) = Inr (map (\<lambda>c. JStr [c]) s)"
| "py_iter (JObj kvs) = Inr (map (\<lambda>(k, v). JStr k) kvs)"
| "py_iter _ = Inl TypeError"

fun all_strs :: "'f json list \<Rightarrow> py_error + string list" where
  "all_strs [] = Inr []"
| "all_strs (JStr s # vs) = bindE (all_strs vs) (\<lambda>ss. Inr (s # ss))"
| "all_strs (_ # vs) = Inl TypeError"

text \<open>\<^verbatim>\<open>sep.join(v)\<close>: every item drawn from \<open>v\<close> has to be a str.\<close>

definition py_join :: "string \<Rightarrow> 'f json \<Rightarrow> py_error + string" where
  "py_join sep v = bindE (py_iter v) (\<lambda>items. bindE (all_strs items) (\<lambda>ss. Inr (join sep ss)))"

text \<open>\<^verbatim>\<open>s.replace(old, new)\<close>: the occurrences of \<open>old\<close> found from the left, none
  overlapping another. Only a str has the method.\<close>

function replace :: "string \<Rightarrow> string \<Rightarrow> string \<Rightarrow> string" where
  "replace old new [] = (if old = [] then new else [])"
| "replace old new (c # cs) =
     (if old = [] then new @ c # replace old new cs
      else if prefix old (c # cs) then new @ replace old new (drop (length old) (c # cs))
      else c # replace old new cs)"
  by pat_completeness auto
termination
  by (relation "measure (\<lambda>(old, new, s). length s)") (auto simp: neq_Nil_conv)

definition py_replace :: "'f json \<Rightarrow> string \<Rightarrow> string \<Rightarrow> py_error + 'f json" where
  "py_replace v old new = (case v of JStr s \<Rightarrow> Inr (JStr (replace old new s)) | _ \<Rightarrow> Inl AttributeError)"


text \<open>\<^verbatim>\<open>s.title()\<close> over ASCII letters, which is all the adapter applies it to: the
  travel mode has passed the membership test by then.\<close>

definition is_lower :: "char \<Rightarrow> bool" where
  "is_lower c = (97 \<le> (of_char c :: nat) \<and> (of_char c :: nat) \<le> 122)"

definition is_upper :: "char \<Rightarrow> bool" where
  "is_upper c = (65 \<le> (of_char c :: nat) \<and> (of_char c :: nat) \<le> 90)"

fun title_from :: "bool \<Rightarrow> string \<Rightarrow> string" where
  "title_from prev [] = []"
| "title_from prev (c # cs) =
     (if is_lower c then (if prev then c else char_of (of_char c - (32::nat))) # title_from True cs
      else if is_upper c then (if prev then char_of (of_char c + (32::nat)) else c) # title_from True cs
      else c # title_from False cs)"

definition title :: "string \<Rightarrow> string" where
  "title s = title_from False s"

subsection \<open>Float formatting and the product with a float\<close>

definition int_of_bool :: "bool \<Rightarrow> int" where
  "int_of_bool b = (if b then 1 else 0)"

text \<open>\<^verbatim>\<open>format(v, '.2f')\<close>: an int (a bool is one) is converted to float first.\<close>

fun py_fmt2 :: "'f float_ops \<Rightarrow> 'f json \<Rightarrow> py_error + string" where
  "py_fmt2 fo (JFloat x) = Inr (float_fmt2 fo x)"
| "py_fmt2 fo (JInt i) =
     (case float_of_int fo i of None \<Rightarrow> Inl OverflowError | Some x \<Rightarrow> Inr (float_fmt2 fo x))"
| "py_fmt2 fo (JBool b) =
     (case float_of_int fo (int_of_bool b) of None \<Rightarrow> Inl OverflowError
      | Some x \<Rightarrow> Inr (float_fmt2 fo x))"
| "py_fmt2 fo (JStr s) = Inl ValueError"
| "py_fmt2 fo _ = Inl TypeError"

text \<open>\<^verbatim>\<open>v * c\<close> for a float \<open>c\<close>.\<close>

fun py_mul_float :: "'f float_ops \<Rightarrow> 'f json \<Rightarrow> 'f \<Rightarrow> py_error + 'f json" where
  "py_mul_float fo (JFloat x) c = Inr (JFloat (float_mul fo x c))"
| "py_mul_float fo (JInt i) c =
     (case float_of_int fo i of None \<Rightarrow> Inl OverflowError
      | Some x \<Rightarrow> Inr (JFloat (float_mul fo x c)))"
| "py_mul_float fo (JBool b) c =
     (case float_of_int fo (int_of_bool b) of None \<Rightarrow> Inl OverflowError
      | Some x \<Rightarrow> Inr (JFloat (float_mul fo x c)))"
| "py_mul_float fo _ c = Inl TypeError"

section \<open>The request gateway\<close>

text \<open>
  The HTTP client library is outside the program. \<open>client url params\<close> is what
  \<^verbatim>\<open>client.get(url, params=params, timeout=30.0)\<close> does with the request it is handed:
  it raises (\<open>Inl\<close> the text of the exception, a timeout included) or it returns a
  response. A response is the record of what its two methods do: \<open>raise_for_status\<close>
  raises (\<open>Some\<close> the text) or not, \<open>response_json\<close> raises or returns the decoded body.

  The world is what the program does beyond returning: the requests sent, in order,
  and the lines printed.
\<close>

type_synonym params = "string \<rightharpoonup> string"

record 'f response =
  raise_for_status :: "string option"
  response_json :: "string + 'f json"

type_synonym 'f client = "string \<Rightarrow> params \<Rightarrow> string + 'f response"

record world =
  requests :: "(string \<times> params) list"
  printed :: "string list"

definition GOOGLE_MAPS_BASE_URL :: string where
  "GOOGLE_MAPS_BASE_URL = ''https://maps.googleapis.com/maps/api''"

definition print :: "string \<Rightarrow> world \<Rightarrow> world" where
  "print line w = w\<lparr>printed := printed w @ [line]\<rparr>"

definition type_name :: "'f json \<Rightarrow> string" where
  "type_name v = (case v of JNull \<Rightarrow> ''NoneType'' | JBool b \<Rightarrow> ''bool'' | JInt i \<Rightarrow> ''int''
     | JFloat x \<Rightarrow> ''float'' | JStr s \<Rightarrow> ''str'' | JArr xs \<Rightarrow> ''list'' | JObj kvs \<Rightarrow> ''dict'')"

text \<open>The text of the AttributeError of \<^verbatim>\<open>data.get\<close> on a body that is no dict.\<close>

definition no_get_text :: "'f json \<Rightarrow> string" where
  "no_get_text v =
     [CHR 0x27] @ type_name v @ [CHR 0x27] @ '' object has no attribute '' @
     [CHR 0x27] @ ''get'' @ [CHR 0x27]"

text \<open>\<^verbatim>\<open>v != "OK"\<close>, \<^verbatim>\<open>v == "OK"\<close>: only a str equals a str.\<close>

definition py_eq_str :: "'f json \<Rightarrow> string \<Rightarrow> bool" where
  "py_eq_str v s = (case v of JStr t \<Rightarrow> t = s | _ \<Rightarrow> False)"

text \<open>
  \<open>make_google_request\<close> returns the payload or \<^verbatim>\<open>None\<close>, and with it the caller's
  \<open>params\<close> as the call leaves them, since it writes into them.
\<close>

definition make_google_request ::
  "string \<Rightarrow> 'f float_ops \<Rightarrow> 'f client \<Rightarrow> string \<Rightarrow> params \<Rightarrow> world
     \<Rightarrow> ('f json option \<times> params) \<times> world" where
  "make_google_request api_key fo client endpoint params w =
     (let params' = params(''key'' \<mapsto> api_key);
          url = GOOGLE_MAPS_BASE_URL @ ''/'' @ endpoint;
          w' = w\<lparr>requests := requests w @ [(url, params')]\<rparr>;
          failed = (\<lambda>e. ((None, params'), print (''Request failed: '' @ e) w'))
      in case client url params' of
           Inl e \<Rightarrow> failed e
         | Inr response \<Rightarrow>
            (case raise_for_status response of
               Some e \<Rightarrow> failed e
             | None \<Rightarrow>
                (case response_json response of
                   Inl e \<Rightarrow> failed e
                 | Inr data \<Rightarrow>
                    (case py_get data ''status'' JNull of
                       Inl err \<Rightarrow> failed (no_get_text data)
                     | Inr status \<Rightarrow>
                        if \<not> py_eq_str status ''OK'' then
                          (case py_get data ''error_message'' status of
                             Inl err \<Rightarrow> failed (no_get_text data)
                           | Inr msg \<Rightarrow>
                              ((None, params'),
                               print (''Google Maps API error: '' @ py_str fo msg) w'))
                        else ((Some data, params'), w')))))"

section \<open>The tool operations\<close>

text \<open>
  Every operation takes the credential, the float operations, the client and the
  world, and returns its text or the exception it raises, with the world it leaves.
  \<open>no_data\<close> is the test \<^verbatim>\<open>not data or not data.get(k)\<close> that follows each gateway call.
\<close>

definition no_data :: "'f float_ops \<Rightarrow> 'f json option \<Rightarrow> string \<Rightarrow> py_error + bool" where
  "no_data fo data k =
     (case data of
        None \<Rightarrow> Inr True
      | Some d \<Rightarrow>
          if \<not> truthy fo d then Inr True
          else bindE (py_get d k JNull) (\<lambda>v. Inr (\<not> truthy fo v)))"

subsection \<open>geocode_address\<close>

definition geocode_address_report :: "'f float_ops \<Rightarrow> 'f json option \<Rightarrow> py_error + string" where
  "geocode_address_report fo data =
     bindE (no_data fo data ''results'') (\<lambda>nothing.
       if nothing then Inr ''Unable to geocode the provided address.''
       else
         bindE (py_item (the data) ''results'') (\<lambda>results.
         bindE (py_index results 0) (\<lambda>result.
         bindE (py_item result ''geometry'') (\<lambda>geometry.
         bindE (py_item geometry ''location'') (\<lambda>location.
         bindE (py_item result ''formatted_address'') (\<lambda>formatted_address.
         bindE (py_item location ''lat'') (\<lambda>lat.
         bindE (py_item location ''lng'') (\<lambda>lng.
         bindE (py_item result ''place_id'') (\<lambda>place_id.
           Inr (''\<newline>Address: '' @ py_str fo formatted_address @
                ''\<newline>Coordinates: '' @ py_str fo lat @ '', '' @ py_str fo lng @
                ''\<newline>Place ID: '' @ py_str fo place_id @ ''\<newline>''))))))))))"

definition geocode_address ::
  "string \<Rightarrow> 'f float_ops \<Rightarrow> 'f client \<Rightarrow> string \<Rightarrow> world \<Rightarrow> (py_error + string) \<times> world" where
  "geocode_address api_key fo client address w =
     (let params = [''address'' \<mapsto> address];
          (got, w') = make_google_request api_key fo client ''geocode/json'' params w
      in (geocode_address_report fo (fst got), w'))"


subsection \<open>reverse_geocode\<close>

definition reverse_geocode_report ::
  "'f float_ops \<Rightarrow> 'f \<Rightarrow> 'f \<Rightarrow> 'f json option \<Rightarrow> py_error + string" where
  "reverse_geocode_report fo latitude longitude data =
     bindE (no_data fo data ''results'') (\<lambda>nothing.
       if nothing then Inr ''Unable to reverse geocode the provided coordinates.''
       else
         bindE (py_item (the data) ''results'') (\<lambda>results.
         bindE (py_index results 0) (\<lambda>result.
         bindE (py_item result ''formatted_address'') (\<lambda>formatted_address.
         bindE (py_item result ''place_id'') (\<lambda>place_id.
           Inr (''\<newline>Formatted Address: '' @ py_str fo formatted_address @
                ''\<newline>Place ID: '' @ py_str fo place_id @
                ''\<newline>Coordinates: '' @ float_str fo latitude @ '', '' @
                float_str fo longitude @ ''\<newline>''))))))"

definition reverse_geocode ::
  "string \<Rightarrow> 'f float_ops \<Rightarrow> 'f client \<Rightarrow> 'f \<Rightarrow> 'f \<Rightarrow> world \<Rightarrow> (py_error + string) \<times> world" where
  "reverse_geocode api_key fo client latitude longitude w =
     (let params = [''latlng'' \<mapsto> float_str fo latitude @ '','' @ float_str fo longitude];
          (got, w') = make_google_request api_key fo client ''geocode/json'' params w
      in (reverse_geocode_report fo latitude longitude (fst got), w'))"

subsection \<open>search_places\<close>

definition place_info :: "'f float_ops \<Rightarrow> 'f json \<Rightarrow> py_error + string" where
  "place_info fo place =
     bindE (py_item place ''name'') (\<lambda>name.
     bindE (py_get place ''formatted_address'' (JStr ''Address not available'')) (\<lambda>address.
     bindE (py_get place ''rating'' (JStr ''No rating'')) (\<lambda>rating.
     bindE (py_get place ''types'' (JArr [])) (\<lambda>types.
     bindE (py_join '', '' types) (\<lambda>joined.
     bindE (py_item place ''place_id'') (\<lambda>place_id.
       Inr (''\<newline>Name: '' @ py_str fo name @
            ''\<newline>Address: '' @ py_str fo address @
            ''\<newline>Rating: '' @ py_str fo rating @ '' stars'' @
            ''\<newline>Types: '' @ joined @
            ''\<newline>Place ID: '' @ py_str fo place_id @ ''\<newline>'')))))))"

text \<open>The loop over the first five results, \<open>places\<close> being the list it appends to.\<close>

fun places_loop :: "'f float_ops \<Rightarrow> 'f json list \<Rightarrow> string list \<Rightarrow> py_error + string list" where
  "places_loop fo [] places = Inr places"
| "places_loop fo (place # rest) places =
     bindE (place_info fo place) (\<lambda>info. places_loop fo rest (places @ [info]))"

definition search_places_report :: "'f float_ops \<Rightarrow> 'f json option \<Rightarrow> py_error + string" where
  "search_places_report fo data =
     bindE (no_data fo data ''results'') (\<lambda>nothing.
       if nothing then Inr ''No places found for the search query.''
       else
         bindE (py_item (the data) ''results'') (\<lambda>results.
         bindE (py_slice results 5) (\<lambda>first5.
         bindE (py_iter first5) (\<lambda>items.
         bindE (places_loop fo items []) (\<lambda>places.
           Inr (join ''\<newline>---\<newline>'' places))))))"

text \<open>\<^verbatim>\<open>if location:\<close> and \<^verbatim>\<open>if radius:\<close> skip \<^verbatim>\<open>None\<close>, the empty str and \<open>0\<close>.\<close>

definition search_places_params :: "string \<Rightarrow> string option \<Rightarrow> int option \<Rightarrow> params" where
  "search_places_params query location radius =
     (let params = [''query'' \<mapsto> query];
          params = (case location of
                      None \<Rightarrow> params
                    | Some l \<Rightarrow> if l \<noteq> [] then params(''location'' \<mapsto> l) else params);
          params = (case radius of
                      None \<Rightarrow> params
                    | Some r \<Rightarrow> if r \<noteq> 0 then params(''radius'' \<mapsto> str_int r) else params)
      in params)"

definition search_places ::
  "string \<Rightarrow> 'f float_ops \<Rightarrow> 'f client \<Rightarrow> string \<Rightarrow> string option \<Rightarrow> int option \<Rightarrow> world
     \<Rightarrow> (py_error + string) \<times> world" where
  "search_places api_key fo client query location radius w =
     (let params = search_places_params query location radius;
          (got, w') = make_google_request api_key fo client ''place/textsearch/json'' params w
      in (search_places_report fo (fst got), w'))"

subsection \<open>get_place_details\<close>

definition opening_hours_text :: "'f float_ops \<Rightarrow> 'f json \<Rightarrow> string \<Rightarrow> py_error + string" where
  "opening_hours_text fo place details =
     bindE (py_get place ''opening_hours'' JNull) (\<lambda>oh.
       if truthy fo oh then
         bindE (py_item place ''opening_hours'') (\<lambda>hours.
         bindE (py_get hours ''weekday_text'' JNull) (\<lambda>wt.
         bindE (if truthy fo wt then
                  bindE (py_item hours ''weekday_text'') (\<lambda>weekday_text.
                  bindE (py_join ''\<newline>'' weekday_text) (\<lambda>joined.
                    Inr (details @ ''\<newline>Opening Hours:\<newline>'' @ joined)))
                else Inr details) (\<lambda>details.
         bindE (py_get hours ''open_now'' JNull) (\<lambda>open_now.
           Inr (details @ ''\<newline>Currently Open: '' @
                (if truthy fo open_now then ''Yes'' else ''No''))))))
       else Inr details)"

definition review_text :: "'f float_ops \<Rightarrow> 'f json \<Rightarrow> py_error + string" where
  "review_text fo review =
     bindE (py_item review ''author_name'') (\<lambda>author_name.
     bindE (py_item review ''rating'') (\<lambda>rating.
     bindE (py_item review ''text'') (\<lambda>text.
     bindE (py_slice text 200) (\<lambda>text200.
       Inr (''\<newline>- '' @ py_str fo author_name @ '' ('' @ py_str fo rating @
            '' stars): '' @ py_str fo text200 @ ''...\<newline>'')))))"

fun reviews_loop :: "'f float_ops \<Rightarrow> 'f json list \<Rightarrow> string \<Rightarrow> py_error + string" where
  "reviews_loop fo [] details = Inr details"
| "reviews_loop fo (review # rest) details =
     bindE (review_text fo review) (\<lambda>t. reviews_loop fo rest (details @ t))"

definition reviews_text :: "'f float_ops \<Rightarrow> 'f json \<Rightarrow> string \<Rightarrow> py_error + string" where
  "reviews_text fo place details =
     bindE (py_get place ''reviews'' JNull) (\<lambda>rv.
       if truthy fo rv then
         bindE (py_item place ''reviews'') (\<lambda>reviews.
         bindE (py_slice reviews 3) (\<lambda>first3.
         bindE (py_iter first3) (\<lambda>items.
           reviews_loop fo items (details @ ''\<newline>\<newline>Recent Reviews:''))))
       else Inr details)"

definition place_details_head :: "'f float_ops \<Rightarrow> 'f json \<Rightarrow> py_error + string" where
  "place_details_head fo place =
     bindE (py_get place ''name'' (JStr ''Unknown'')) (\<lambda>name.
     bindE (py_get place ''formatted_address'' (JStr ''Address not available'')) (\<lambda>address.
     bindE (py_get place ''formatted_phone_number'' (JStr ''Phone not available'')) (\<lambda>phone.
     bindE (py_get place ''website'' (JStr ''Website not available'')) (\<lambda>website.
     bindE (py_get place ''rating'' (JStr ''No rating'')) (\<lambda>rating.
       Inr (''\<newline>Name: '' @ py_str fo name @
            ''\<newline>Address: '' @ py_str fo address @
            ''\<newline>Phone: '' @ py_str fo phone @
            ''\<newline>Website: '' @ py_str fo website @
            ''\<newline>Rating: '' @ py_str fo rating @ '' stars\<newline>''))))))"

definition get_place_details_report :: "'f float_ops \<Rightarrow> 'f json option \<Rightarrow> py_error + string" where
  "get_place_details_report fo data =
     bindE (no_data fo data ''result'') (\<lambda>nothing.
       if nothing then Inr ''Unable to fetch place details.''
       else
         bindE (py_item (the data) ''result'') (\<lambda>place.
         bindE (place_details_head fo place) (\<lambda>details.
         bindE (opening_hours_text fo place details) (\<lambda>details.
           reviews_text fo place details))))"

definition place_details_fields :: string where
  "place_details_fields =
     ''name,formatted_address,formatted_phone_number,website,rating,reviews,opening_hours,geometry''"

definition get_place_details ::
  "string \<Rightarrow> 'f float_ops \<Rightarrow> 'f client \<Rightarrow> string \<Rightarrow> world \<Rightarrow> (py_error + string) \<times> world" where
  "get_place_details api_key fo client place_id w =
     (let params = [''place_id'' \<mapsto> place_id, ''fields'' \<mapsto> place_details_fields];
          (got, w') = make_google_request api_key fo client ''place/details/json'' params w
      in (get_place_details_report fo (fst got), w'))"

subsection \<open>get_directions\<close>

definition travel_modes :: "string list" where
  "travel_modes = [''driving'', ''walking'', ''bicycling'', ''transit'']"

definition invalid_mode_text :: string where
  "invalid_mode_text = ''Invalid travel mode. Use: driving, walking, bicycling, or transit''"

text \<open>The four \<^verbatim>\<open>replace\<close> calls on \<^verbatim>\<open>step["html_instructions"]\<close>, in the order of the source.\<close>

definition strip_tags :: "'f json \<Rightarrow> py_error + 'f json" where
  "strip_tags html =
     bindE (py_replace html ''<b>'' []) (\<lambda>a.
     bindE (py_replace a ''</b>'' []) (\<lambda>b.
     bindE (py_replace b ''<div>'' '' '') (\<lambda>c.
       py_replace c ''</div>'' [])))"

definition step_line :: "'f float_ops \<Rightarrow> nat \<Rightarrow> 'f json \<Rightarrow> py_error + string" where
  "step_line fo i step =
     bindE (py_item step ''html_instructions'') (\<lambda>html.
     bindE (strip_tags html) (\<lambda>instructions.
     bindE (py_item step ''distance'') (\<lambda>distance.
     bindE (py_item distance ''text'') (\<lambda>distance_text.
     bindE (py_item step ''duration'') (\<lambda>duration.
     bindE (py_item duration ''text'') (\<lambda>duration_text.
       Inr (str_nat i @ ''. '' @ py_str fo instructions @ '' ('' @ py_str fo distance_text @
            '', '' @ py_str fo duration_text @ '')\<newline>'')))))))"

text \<open>\<^verbatim>\<open>for i, step in enumerate(..., 1)\<close>: \<open>i\<close> is the number of the step at the head.\<close>

fun steps_loop :: "'f float_ops \<Rightarrow> nat \<Rightarrow> 'f json list \<Rightarrow> string \<Rightarrow> py_error + string" where
  "steps_loop fo i [] directions = Inr directions"
| "steps_loop fo i (step # rest) directions =
     bindE (step_line fo i step) (\<lambda>line. steps_loop fo (Suc i) rest (directions @ line))"

definition directions_head :: "'f float_ops \<Rightarrow> string \<Rightarrow> 'f json \<Rightarrow> 'f json \<Rightarrow> py_error + string" where
  "directions_head fo mode route leg =
     bindE (py_get route ''summary'' (JStr ''Direct route'')) (\<lambda>summary.
     bindE (py_item leg ''distance'') (\<lambda>distance.
     bindE (py_item distance ''text'') (\<lambda>distance_text.
     bindE (py_item leg ''duration'') (\<lambda>duration.
     bindE (py_item duration ''text'') (\<lambda>duration_text.
       Inr (''\<newline>Route Summary: '' @ py_str fo summary @
            ''\<newline>Distance: '' @ py_str fo distance_text @
            ''\<newline>Duration: '' @ py_str fo duration_text @
            ''\<newline>Travel Mode: '' @ title mode @
            ''\<newline>\<newline>Turn-by-Turn Directions:\<newline>''))))))"

definition get_directions_report ::
  "'f float_ops \<Rightarrow> string \<Rightarrow> 'f json option \<Rightarrow> py_error + string" where
  "get_directions_report fo mode data =
     bindE (no_data fo data ''routes'') (\<lambda>nothing.
       if nothing then Inr ''Unable to find directions for the specified route.''
       else
         bindE (py_item (the data) ''routes'') (\<lambda>routes.
         bindE (py_index routes 0) (\<lambda>route.
         bindE (py_item route ''legs'') (\<lambda>legs.
         bindE (py_index legs 0) (\<lambda>leg.
         bindE (directions_head fo mode route leg) (\<lambda>directions.
         bindE (py_item leg ''steps'') (\<lambda>steps.
         bindE (py_slice steps 10) (\<lambda>first10.
         bindE (py_iter first10) (\<lambda>items.
           steps_loop fo 1 items directions)))))))))"

definition get_directions ::
  "string \<Rightarrow> 'f float_ops \<Rightarrow> 'f client \<Rightarrow> string \<Rightarrow> string \<Rightarrow> string \<Rightarrow> world
     \<Rightarrow> (py_error + string) \<times> world" where
  "get_directions api_key fo client origin destination mode w =
     (if mode \<notin> set travel_modes then (Inr invalid_mode_text, w)
      else
        let params = [''origin'' \<mapsto> origin, ''destination'' \<mapsto> destination, ''mode'' \<mapsto> mode];
            (got, w') = make_google_request api_key fo client ''directions/json'' params w
        in (get_directions_report fo mode (fst got), w'))"

subsection \<open>calculate_distance_matrix\<close>

definition element_line :: "'f float_ops \<Rightarrow> 'f json \<Rightarrow> nat \<Rightarrow> nat \<Rightarrow> 'f json \<Rightarrow> py_error + string" where
  "element_line fo data i j destination =
     bindE (py_item data ''rows'') (\<lambda>rows.
     bindE (py_index rows i) (\<lambda>row.
     bindE (py_item row ''elements'') (\<lambda>elements.
     bindE (py_index elements j) (\<lambda>element.
     bindE (py_item element ''status'') (\<lambda>status.
       if py_eq_str status ''OK'' then
         bindE (py_item element ''distance'') (\<lambda>distance.
         bindE (py_item distance ''text'') (\<lambda>distance_text.
         bindE (py_item element ''duration'') (\<lambda>duration.
         bindE (py_item duration ''text'') (\<lambda>duration_text.
           Inr (''  To '' @ py_str fo destination @ '': '' @ py_str fo distance_text @
                '' ('' @ py_str fo duration_text @ '')\<newline>'')))))
       else Inr (''  To '' @ py_str fo destination @ '': Route not available\<newline>''))))))"

fun destinations_loop ::
  "'f float_ops \<Rightarrow> 'f json \<Rightarrow> nat \<Rightarrow> nat \<Rightarrow> 'f json list \<Rightarrow> string \<Rightarrow> py_error + string" where
  "destinations_loop fo data i j [] results = Inr results"
| "destinations_loop fo data i j (destination # rest) results =
     bindE (element_line fo data i j destination) (\<lambda>line.
       destinations_loop fo data i (Suc j) rest (results @ line))"

fun origins_loop ::
  "'f float_ops \<Rightarrow> 'f json \<Rightarrow> nat \<Rightarrow> 'f json list \<Rightarrow> string \<Rightarrow> py_error + string" where
  "origins_loop fo data i [] results = Inr results"
| "origins_loop fo data i (origin # rest) results =
     bindE (py_item data ''destination_addresses'') (\<lambda>destination_addresses.
     bindE (py_iter destination_addresses) (\<lambda>destinations.
     bindE (destinations_loop fo data i 0 destinations
              (results @ ''From: '' @ py_str fo origin @ ''\<newline>'')) (\<lambda>results.
       origins_loop fo data (Suc i) rest (results @ ''\<newline>''))))"

definition calculate_distance_matrix_report ::
  "'f float_ops \<Rightarrow> string \<Rightarrow> 'f json option \<Rightarrow> py_error + string" where
  "calculate_distance_matrix_report fo mode data =
     bindE (no_data fo data ''rows'') (\<lambda>nothing.
       if nothing then Inr ''Unable to calculate distance matrix.''
       else
         bindE (py_item (the data) ''origin_addresses'') (\<lambda>origin_addresses.
         bindE (py_iter origin_addresses) (\<lambda>origins.
           origins_loop fo (the data) 0 origins
             (''Distance Matrix ('' @ title mode @ '' mode):\<newline>\<newline>''))))"

definition calculate_distance_matrix ::
  "string \<Rightarrow> 'f float_ops \<Rightarrow> 'f client \<Rightarrow> string list \<Rightarrow> string list \<Rightarrow> string \<Rightarrow> world
     \<Rightarrow> (py_error + string) \<times> world" where
  "calculate_distance_matrix api_key fo client origins destinations mode w =
     (if mode \<notin> set travel_modes then (Inr invalid_mode_text, w)
      else
        let params = [''origins'' \<mapsto> join ''|'' origins,
                      ''destinations'' \<mapsto> join ''|'' destinations,
                      ''mode'' \<mapsto> mode];
            (got, w') = make_google_request api_key fo client ''distancematrix/json'' params w
        in (calculate_distance_matrix_report fo mode (fst got), w'))"

subsection \<open>get_elevation\<close>

text \<open>A location is a dict from str to float. \<^verbatim>\<open>loc['lat']\<close> raises KeyError on a dict
  without the key, before any request is made.\<close>

definition location_string :: "'f float_ops \<Rightarrow> (string \<times> 'f) list \<Rightarrow> py_error + string" where
  "location_string fo loc =
     (case map_of loc ''lat'' of
        None \<Rightarrow> Inl KeyError
      | Some lat \<Rightarrow>
         (case map_of loc ''lng'' of
            None \<Rightarrow> Inl KeyError
          | Some lng \<Rightarrow> Inr (float_str fo lat @ '','' @ float_str fo lng)))"

fun location_strings :: "'f float_ops \<Rightarrow> (string \<times> 'f) list list \<Rightarrow> py_error + string list" where
  "location_strings fo [] = Inr []"
| "location_strings fo (loc # locs) =
     bindE (location_string fo loc) (\<lambda>s.
     bindE (location_strings fo locs) (\<lambda>ss. Inr (s # ss)))"

definition elevation_lines :: "'f float_ops \<Rightarrow> nat \<Rightarrow> 'f json \<Rightarrow> py_error + string" where
  "elevation_lines fo i result =
     bindE (py_item result ''location'') (\<lambda>location.
     bindE (py_item location ''lat'') (\<lambda>lat.
     bindE (py_item location ''lng'') (\<lambda>lng.
     bindE (py_item result ''elevation'') (\<lambda>elevation.
     bindE (py_fmt2 fo elevation) (\<lambda>metres.
     bindE (py_mul_float fo elevation (feet_per_metre fo)) (\<lambda>product.
     bindE (py_fmt2 fo product) (\<lambda>feet.
     bindE (py_item result ''resolution'') (\<lambda>resolution.
     bindE (py_fmt2 fo resolution) (\<lambda>res.
       Inr (''Location '' @ str_nat (i + 1) @ '': '' @ py_str fo lat @ '', '' @ py_str fo lng @
            ''\<newline>'' @
            ''Elevation: '' @ metres @ '' meters ('' @ feet @ '' feet)\<newline>'' @
            ''Resolution: '' @ res @ '' meters\<newline>\<newline>''))))))))))"

fun elevation_loop :: "'f float_ops \<Rightarrow> nat \<Rightarrow> 'f json list \<Rightarrow> string \<Rightarrow> py_error + string" where
  "elevation_loop fo i [] results = Inr results"
| "elevation_loop fo i (result # rest) results =
     bindE (elevation_lines fo i result) (\<lambda>lines.
       elevation_loop fo (Suc i) rest (results @ lines))"

definition get_elevation_report :: "'f float_ops \<Rightarrow> 'f json option \<Rightarrow> py_error + string" where
  "get_elevation_report fo data =
     bindE (no_data fo data ''results'') (\<lambda>nothing.
       if nothing then Inr ''Unable to fetch elevation data.''
       else
         bindE (py_item (the data) ''results'') (\<lambda>results.
         bindE (py_iter results) (\<lambda>items.
           elevation_loop fo 0 items ''Elevation Data:\<newline>\<newline>'')))"

definition get_elevation ::
  "string \<Rightarrow> 'f float_ops \<Rightarrow> 'f client \<Rightarrow> (string \<times> 'f) list list \<Rightarrow> world
     \<Rightarrow> (py_error + string) \<times> world" where
  "get_elevation api_key fo client locations w =
     (case location_strings fo locations of
        Inl e \<Rightarrow> (Inl e, w)
      | Inr strs \<Rightarrow>
         let params = [''locations'' \<mapsto> join ''|'' strs];
             (got, w') = make_google_request api_key fo client ''elevation/json'' params w
         in (get_elevation_report fo (fst got), w'))"

section \<open>What the claims speak of\<close>

text \<open>The payload a gateway call hands back, and what the client makes of the request
  the gateway sends.\<close>

abbreviation gateway_result ::
  "string \<Rightarrow> 'f float_ops \<Rightarrow> 'f client \<Rightarrow> string \<Rightarrow> params \<Rightarrow> world \<Rightarrow> 'f json option" where
  "gateway_result api_key fo client endpoint params w \<equiv>
     fst (fst (make_google_request api_key fo client endpoint params w))"

abbreviation sent :: "string \<Rightarrow> 'f client \<Rightarrow> string \<Rightarrow> params \<Rightarrow> string + 'f response" where
  "sent api_key client endpoint params \<equiv>
     client (GOOGLE_MAPS_BASE_URL @ ''/'' @ endpoint) (params(''key'' \<mapsto> api_key))"

text \<open>The gateway result is absent, or the payload has nothing true under \<open>k\<close>: no
  entry, \<^verbatim>\<open>None\<close>, an empty list.\<close>

definition absent_or_empty :: "'f float_ops \<Rightarrow> 'f json option \<Rightarrow> string \<Rightarrow> bool" where
  "absent_or_empty fo data k =
     (case data of
        None \<Rightarrow> True
      | Some d \<Rightarrow> (case py_get d k JNull of Inl e \<Rightarrow> False | Inr v \<Rightarrow> \<not> truthy fo v))"

text \<open>What the upstream answered: the decoded body of a response that passed the status
  check, or nothing when the client, the status check or the decoding raised. The
  text of the exception is not part of it.\<close>

definition answer :: "string + 'f response \<Rightarrow> 'f json option" where
  "answer outcome =
     (case outcome of
        Inl e \<Rightarrow> None
      | Inr response \<Rightarrow>
         (case raise_for_status response of
            Some e \<Rightarrow> None
          | None \<Rightarrow> (case response_json response of Inl e \<Rightarrow> None | Inr body \<Rightarrow> Some body)))"

text \<open>A field of a record, or the placeholder when the record has no such field.\<close>

definition field_or :: "(string \<times> 'f json) list \<Rightarrow> string \<Rightarrow> string \<Rightarrow> 'f json" where
  "field_or record k placeholder =
     (case map_of record k of None \<Rightarrow> JStr placeholder | Some v \<Rightarrow> v)"

definition the_str :: "'f json \<Rightarrow> string" where
  "the_str v = (case v of JStr s \<Rightarrow> s | _ \<Rightarrow> [])"

definition is_str :: "'f json \<Rightarrow> bool" where
  "is_str v = (case v of JStr s \<Rightarrow> True | _ \<Rightarrow> False)"

text \<open>\<^verbatim>\<open>v[k]['text']\<close>, as the operations read a distance or a duration.\<close>

definition text_in :: "'f json \<Rightarrow> string \<Rightarrow> py_error + 'f json" where
  "text_in v k = bindE (py_item v k) (\<lambda>d. py_item d ''text'')"

subsection \<open>A place in a search result\<close>

text \<open>A record \<open>search_places\<close> can render: a dict with a name and a place id, whose
  \<open>types\<close>, if there, is a list of strs. \<open>place_text\<close> is its block of the report.\<close>

definition listed_place :: "'f json \<Rightarrow> bool" where
  "listed_place v =
     (case v of
        JObj place \<Rightarrow>
          map_of place ''name'' \<noteq> None \<and> map_of place ''place_id'' \<noteq> None \<and>
          (case map_of place ''types'' of
             None \<Rightarrow> True
           | Some (JArr types) \<Rightarrow> list_all is_str types
           | Some _ \<Rightarrow> False)
      | _ \<Rightarrow> False)"

definition place_types :: "(string \<times> 'f json) list \<Rightarrow> string list" where
  "place_types place =
     (case map_of place ''types'' of Some (JArr types) \<Rightarrow> map the_str types | _ \<Rightarrow> [])"

definition place_text :: "'f float_ops \<Rightarrow> 'f json \<Rightarrow> string" where
  "place_text fo v =
     (case v of
        JObj place \<Rightarrow>
          ''\<newline>Name: '' @ py_str fo (the (map_of place ''name'')) @
          ''\<newline>Address: '' @ py_str fo (field_or place ''formatted_address'' ''Address not available'') @
          ''\<newline>Rating: '' @ py_str fo (field_or place ''rating'' ''No rating'') @ '' stars'' @
          ''\<newline>Types: '' @ join '', '' (place_types place) @
          ''\<newline>Place ID: '' @ py_str fo (the (map_of place ''place_id'')) @ ''\<newline>''
      | _ \<Rightarrow> [])"

subsection \<open>The details of a place\<close>

definition details_head :: "'f float_ops \<Rightarrow> (string \<times> 'f json) list \<Rightarrow> string" where
  "details_head fo place =
     ''\<newline>Name: '' @ py_str fo (field_or place ''name'' ''Unknown'') @
     ''\<newline>Address: '' @ py_str fo (field_or place ''formatted_address'' ''Address not available'') @
     ''\<newline>Phone: '' @ py_str fo (field_or place ''formatted_phone_number'' ''Phone not available'') @
     ''\<newline>Website: '' @ py_str fo (field_or place ''website'' ''Website not available'') @
     ''\<newline>Rating: '' @ py_str fo (field_or place ''rating'' ''No rating'') @ '' stars\<newline>''"

text \<open>Opening hours the operation can render: none, a false value, or a dict whose
  \<open>weekday_text\<close> is missing, false or a list of strs.\<close>

definition weekday_ok :: "'f float_ops \<Rightarrow> (string \<times> 'f json) list \<Rightarrow> bool" where
  "weekday_ok fo hours =
     (case map_of hours ''weekday_text'' of
        None \<Rightarrow> True
      | Some wt \<Rightarrow>
          if truthy fo wt then (case wt of JArr days \<Rightarrow> list_all is_str days | _ \<Rightarrow> False)
          else True)"

definition hours_ok :: "'f float_ops \<Rightarrow> (string \<times> 'f json) list \<Rightarrow> bool" where
  "hours_ok fo place =
     (case map_of place ''opening_hours'' of
        None \<Rightarrow> True
      | Some oh \<Rightarrow>
          if truthy fo oh then (case oh of JObj hours \<Rightarrow> weekday_ok fo hours | _ \<Rightarrow> False)
          else True)"

definition weekday_section :: "'f float_ops \<Rightarrow> (string \<times> 'f json) list \<Rightarrow> string" where
  "weekday_section fo hours =
     (case map_of hours ''weekday_text'' of
        Some (JArr days) \<Rightarrow>
          if days \<noteq> [] then ''\<newline>Opening Hours:\<newline>'' @ join ''\<newline>'' (map the_str days) else []
      | _ \<Rightarrow> [])"

definition open_now_text :: "'f float_ops \<Rightarrow> (string \<times> 'f json) list \<Rightarrow> string" where
  "open_now_text fo hours =
     (case map_of hours ''open_now'' of
        None \<Rightarrow> ''No''
      | Some v \<Rightarrow> if truthy fo v then ''Yes'' else ''No'')"

definition hours_section :: "'f float_ops \<Rightarrow> (string \<times> 'f json) list \<Rightarrow> string" where
  "hours_section fo place =
     (case map_of place ''opening_hours'' of
        Some (JObj hours) \<Rightarrow>
          if hours \<noteq> [] then
            weekday_section fo hours @ ''\<newline>Currently Open: '' @ open_now_text fo hours
          else []
      | _ \<Rightarrow> [])"

text \<open>A review the operation can render: a dict with an author name, a rating and a
  str \<open>text\<close>. Its line of the report has the first 200 characters of the text and
  three dots.\<close>

definition review_ok :: "'f json \<Rightarrow> bool" where
  "review_ok review =
     (case review of
        JObj r \<Rightarrow>
          map_of r ''author_name'' \<noteq> None \<and> map_of r ''rating'' \<noteq> None \<and>
          (case map_of r ''text'' of Some (JStr t) \<Rightarrow> True | _ \<Rightarrow> False)
      | _ \<Rightarrow> False)"

definition review_line :: "'f float_ops \<Rightarrow> 'f json \<Rightarrow> string" where
  "review_line fo review =
     (case review of
        JObj r \<Rightarrow>
          ''\<newline>- '' @ py_str fo (the (map_of r ''author_name'')) @ '' ('' @
          py_str fo (the (map_of r ''rating'')) @ '' stars): '' @
          take 200 (the_str (the (map_of r ''text''))) @ ''...\<newline>''
      | _ \<Rightarrow> [])"

definition reviews_ok :: "'f float_ops \<Rightarrow> (string \<times> 'f json) list \<Rightarrow> bool" where
  "reviews_ok fo place =
     (case map_of place ''reviews'' of
        None \<Rightarrow> True
      | Some rv \<Rightarrow>
          if truthy fo rv then
            (case rv of JArr reviews \<Rightarrow> list_all review_ok (take 3 reviews) | _ \<Rightarrow> False)
          else True)"

definition reviews_section :: "'f float_ops \<Rightarrow> (string \<times> 'f json) list \<Rightarrow> string" where
  "reviews_section fo place =
     (case map_of place ''reviews'' of
        Some (JArr reviews) \<Rightarrow>
          if reviews \<noteq> [] then
            ''\<newline>\<newline>Recent Reviews:'' @ concat (map (review_line fo) (take 3 reviews))
          else []
      | _ \<Rightarrow> [])"

subsection \<open>The steps of a route\<close>


definition stripped :: "string \<Rightarrow> string" where
  "stripped html =
     replace ''</div>'' [] (replace ''<div>'' '' '' (replace ''</b>'' [] (replace ''<b>'' [] html)))"

text \<open>What the operation reads of a step: the str \<open>html_instructions\<close> and the texts of
  distance and duration.\<close>

definition step_parts :: "'f json \<Rightarrow> (string \<times> 'f json \<times> 'f json) option" where
  "step_parts step =
     (case py_item step ''html_instructions'' of
        Inr (JStr html) \<Rightarrow>
          (case text_in step ''distance'' of
             Inr distance_text \<Rightarrow>
               (case text_in step ''duration'' of
                  Inr duration_text \<Rightarrow> Some (html, distance_text, duration_text)
                | Inl e \<Rightarrow> None)
           | Inl e \<Rightarrow> None)
      | _ \<Rightarrow> None)"

definition numbered_step :: "'f float_ops \<Rightarrow> nat \<times> string \<times> 'f json \<times> 'f json \<Rightarrow> string" where
  "numbered_step fo p =
     (case p of (i, html, distance_text, duration_text) \<Rightarrow>
        str_nat i @ ''. '' @ stripped html @ '' ('' @ py_str fo distance_text @ '', '' @
        py_str fo duration_text @ '')\<newline>'')"

definition directions_text ::
  "'f float_ops \<Rightarrow> string \<Rightarrow> 'f json \<Rightarrow> 'f json \<Rightarrow> 'f json
     \<Rightarrow> (string \<times> 'f json \<times> 'f json) list \<Rightarrow> string" where
  "directions_text fo mode summary distance_text duration_text parts =
     ''\<newline>Route Summary: '' @ py_str fo summary @
     ''\<newline>Distance: '' @ py_str fo distance_text @
     ''\<newline>Duration: '' @ py_str fo duration_text @
     ''\<newline>Travel Mode: '' @ title mode @
     ''\<newline>\<newline>Turn-by-Turn Directions:\<newline>'' @
     concat (map (numbered_step fo) (enumerate 1 parts))"

subsection \<open>The cells of a distance matrix\<close>

text \<open>The elements of a row, and what the nested line shows for an element: the two
  texts when its status is "OK", "Route not available" for any other status.\<close>

definition elements_of :: "'f json \<Rightarrow> 'f json list option" where
  "elements_of row =
     (case row of
        JObj r \<Rightarrow> (case map_of r ''elements'' of Some (JArr es) \<Rightarrow> Some es | _ \<Rightarrow> None)
      | _ \<Rightarrow> None)"

definition cell_text :: "'f float_ops \<Rightarrow> 'f json \<Rightarrow> string option" where
  "cell_text fo element =
     (case py_item element ''status'' of
        Inl e \<Rightarrow> None
      | Inr status \<Rightarrow>
          if py_eq_str status ''OK'' then
            (case text_in element ''distance'' of
               Inl e \<Rightarrow> None
             | Inr distance_text \<Rightarrow>
                 (case text_in element ''duration'' of
                    Inl e \<Rightarrow> None
                  | Inr duration_text \<Rightarrow>
                      Some (py_str fo distance_text @ '' ('' @ py_str fo duration_text @ '')'')))
          else Some ''Route not available'')"

definition row_ok :: "'f float_ops \<Rightarrow> nat \<Rightarrow> 'f json \<Rightarrow> bool" where
  "row_ok fo n row =
     (case elements_of row of
        None \<Rightarrow> False
      | Some es \<Rightarrow> n \<le> length es \<and> list_all (\<lambda>e. cell_text fo e \<noteq> None) (take n es))"

definition to_line :: "'f float_ops \<Rightarrow> 'f json list \<Rightarrow> 'f json \<Rightarrow> nat \<Rightarrow> string" where
  "to_line fo destinations row j =
     ''  To '' @ py_str fo (destinations ! j) @ '': '' @
     the (cell_text fo (the (elements_of row) ! j)) @ ''\<newline>''"

definition from_block :: "'f float_ops \<Rightarrow> 'f json list \<Rightarrow> 'f json list \<Rightarrow> 'f json list \<Rightarrow> nat \<Rightarrow> string" where
  "from_block fo origins destinations rows i =
     ''From: '' @ py_str fo (origins ! i) @ ''\<newline>'' @
     concat (map (to_line fo destinations (rows ! i)) [0..<length destinations]) @ ''\<newline>''"

section \<open>Test doubles\<close>

text \<open>A client that answers every request with success and the given body.\<close>

definition mock :: "'f json \<Rightarrow> 'f client" where
  "mock payload = (\<lambda>url params. Inr \<lparr>raise_for_status = None, response_json = Inr payload\<rparr>)"

text \<open>A stand-in for floats in the examples: a float is carried as the text \<^verbatim>\<open>str\<close>
  gives for it, and no arithmetic is done.\<close>

definition text_floats :: "string float_ops" where
  "text_floats = \<lparr>float_str = (\<lambda>x. x), float_nonzero = (\<lambda>x. True), float_of_int = (\<lambda>i. None),
     float_mul = (\<lambda>x y. x), float_fmt2 = (\<lambda>x. x), feet_per_metre = ''3.28084''\<rparr>"

definition fresh_world :: world where
  "fresh_world = \<lparr>requests = [], printed = []\<rparr>"

definition geocode_payload :: "'f \<Rightarrow> 'f \<Rightarrow> 'f json" where
  "geocode_payload lat lng =
     JObj [(''status'', JStr ''OK''),
           (''results'', JArr [JObj [
              (''formatted_address'', JStr ''1600 Amphitheatre Parkway, Mountain View, CA, USA''),
              (''geometry'', JObj [(''location'', JObj [(''lat'', JFloat lat), (''lng'', JFloat lng)])]),
              (''place_id'', JStr ''ChIJ2eUgeAK6j4ARbn5u_wAGqWA'')]])]"

text \<open>An upstream that cannot be reached.\<close>

definition unreachable :: "'f client" where
  "unreachable = (\<lambda>url params. Inl ''All connection attempts failed'')"

text \<open>
  An upstream that answers 403. The text of the status error is the one the HTTP
  library writes: the kind of error, the status, the URL of the request with its
  query string, and a second line with a link. The query string has the parameters
  in the order the operation put them into \<open>params\<close>, the key last; \<open>query_names\<close>
  lists the names the program uses in an order that agrees with that of every
  operation. A character other than a letter, a digit and \<^verbatim>\<open>-._~\<close> is written as the
  percent-escapes of its UTF-8 bytes.
\<close>

definition query_names :: "string list" where
  "query_names = [''address'', ''latlng'', ''query'', ''location'', ''radius'', ''place_id'',
     ''fields'', ''origin'', ''destination'', ''origins'', ''destinations'', ''mode'',
     ''locations'', ''key'']"

definition unreserved :: "char \<Rightarrow> bool" where
  "unreserved c = (is_lower c \<or> is_upper c \<or> (48 \<le> (of_char c :: nat) \<and> (of_char c :: nat) \<le> 57)
     \<or> c \<in> set ''-._~'')"

definition hex_digit :: "nat \<Rightarrow> char" where
  "hex_digit d = ''0123456789ABCDEF'' ! d"

definition percent_byte :: "nat \<Rightarrow> string" where
  "percent_byte b = [CHR ''%'', hex_digit (b div 16), hex_digit (b mod 16)]"

definition percent_char :: "char \<Rightarrow> string" where
  "percent_char c =
     (let n = of_char c :: nat in
      if unreserved c then [c]
      else if n < 128 then percent_byte n
      else percent_byte (192 + n div 64) @ percent_byte (128 + n mod 64))"

definition percent_encoded :: "string \<Rightarrow> string" where
  "percent_encoded s = concat (map percent_char s)"

definition query_string :: "params \<Rightarrow> string" where
  "query_string params =
     join ''&'' (concat (map (\<lambda>name. case params name of
                                None \<Rightarrow> []
                              | Some v \<Rightarrow> [percent_encoded name @ ''='' @ percent_encoded v])
                    query_names))"

definition forbidden :: "'f client" where
  "forbidden = (\<lambda>url params.
     Inr \<lparr>raise_for_status =
            Some (''Client error '' @ [CHR 0x27] @ ''403 Forbidden'' @ [CHR 0x27] @ '' for url '' @
                  [CHR 0x27] @ url @ ''?'' @ query_string params @ [CHR 0x27] @
                  ''\<newline>For more information check: '' @
                  ''https://developer.mozilla.org/en-US/docs/Web/HTTP/Status/403''),
          response_json = Inl ''Expecting value: line 1 column 1 (char 0)''\<rparr>)"

text \<open>Payloads: a status other than OK, an empty result list, a geocoding result
  without its place id, places and a place with nothing but what is indexed.\<close>

definition zero_results :: "'f json" where
  "zero_results = JObj [(''status'', JStr ''ZERO_RESULTS''), (''routes'', JArr [])]"

definition no_results :: "'f json" where
  "no_results = JObj [(''status'', JStr ''OK''), (''results'', JArr [])]"

definition missing_place_id :: "'f json" where
  "missing_place_id =
     JObj [(''status'', JStr ''OK''),
           (''results'', JArr [JObj [
              (''formatted_address'', JStr ''1 Main St''),
              (''geometry'', JObj [(''location'', JObj [(''lat'', JInt 1), (''lng'', JInt 2)])])]])]"

definition bare_places :: "'f json" where
  "bare_places =
     JObj [(''status'', JStr ''OK''),
           (''results'', JArr [JObj [(''name'', JStr ''Cafe''), (''place_id'', JStr ''abc'')]])]"

text \<open>A place with its opening hours and a rating, and neither name, address, phone,
  website nor reviews; a route of one step, with no summary, whose instruction has
  the four tags.\<close>

definition hours_place :: "'f json" where
  "hours_place =
     JObj [(''status'', JStr ''OK''),
           (''result'', JObj [
              (''opening_hours'', JObj [
                 (''open_now'', JBool True),
                 (''weekday_text'', JArr [JStr ''Monday: 9-17'', JStr ''Tuesday: 9-17''])]),
              (''rating'', JInt 4)])]"

definition toll_step :: "'f json" where
  "toll_step =
     JObj [(''html_instructions'', JStr ''Turn <b>left</b><div>Toll road</div>''),
           (''distance'', JObj [(''text'', JStr ''0.2 mi'')]),
           (''duration'', JObj [(''text'', JStr ''1 min'')])]"

definition toll_leg :: "'f json" where
  "toll_leg =
     JObj [(''distance'', JObj [(''text'', JStr ''0.2 mi'')]),
           (''duration'', JObj [(''text'', JStr ''1 min'')]),
           (''steps'', JArr [toll_step])]"

definition toll_route :: "'f json" where
  "toll_route =
     JObj [(''status'', JStr ''OK''), (''routes'', JArr [JObj [(''legs'', JArr [toll_leg])]])]"



text \<open>A place with four reviews, the first of 250 characters.\<close>

definition reviewed_place :: "'f json" where
  "reviewed_place =
     JObj [(''status'', JStr ''OK''),
           (''result'', JObj [
              (''name'', JStr ''Cafe''),
              (''reviews'', JArr [
                 JObj [(''author_name'', JStr ''Ann''), (''rating'', JInt 5),
                       (''text'', JStr (replicate 250 (CHR ''a'')))],
                 JObj [(''author_name'', JStr ''Bob''), (''rating'', JInt 4),
                       (''text'', JStr ''Fine'')],
                 JObj [(''author_name'', JStr ''Cy''), (''rating'', JInt 3),
                       (''text'', JStr ''Slow'')],
                 JObj [(''author_name'', JStr ''Dee''), (''rating'', JInt 1),
                       (''text'', JStr ''Closed'')]])])]"

text \<open>A matrix of two origins and two destinations, with no route to the second
  destination.\<close>

definition matrix_rows :: "'f json list" where
  "matrix_rows =
     [JObj [(''elements'', JArr [
        JObj [(''status'', JStr ''OK''), (''distance'', JObj [(''text'', JStr ''95 mi'')]),
              (''duration'', JObj [(''text'', JStr ''1 hour 45 mins'')])],
        JObj [(''status'', JStr ''ZERO_RESULTS'')]])],
      JObj [(''elements'', JArr [
        JObj [(''status'', JStr ''OK''), (''distance'', JObj [(''text'', JStr ''300 mi'')]),
              (''duration'', JObj [(''text'', JStr ''5 hours'')])],
        JObj [(''status'', JStr ''NOT_FOUND'')]])]]"

definition matrix_payload :: "'f json" where
  "matrix_payload =
     JObj [(''status'', JStr ''OK''),
           (''origin_addresses'', JArr [JStr ''New York'', JStr ''Boston'']),
           (''destination_addresses'', JArr [JStr ''Philadelphia'', JStr ''Honolulu'']),
           (''rows'', JArr matrix_rows)]"

section \<open>Properties\<close>

subsection \<open>What an operation returns is its report on the gateway result\<close>

lemma no_data_absent: "absent_or_empty fo data k \<Longrightarrow> no_data fo data k = Inr True"
  by (auto simp: absent_or_empty_def no_data_def bindE_def split: option.splits sum.splits)

lemma geocode_address_result:
  "fst (geocode_address api_key fo client address w)
   = geocode_address_report fo (gateway_result api_key fo client ''geocode/json'' [''address'' \<mapsto> address] w)"
  by (simp add: geocode_address_def split: prod.splits)

lemma reverse_geocode_result:
  "fst (reverse_geocode api_key fo client latitude longitude w)
   = reverse_geocode_report fo latitude longitude
       (gateway_result api_key fo client ''geocode/json''
          [''latlng'' \<mapsto> float_str fo latitude @ '','' @ float_str fo longitude] w)"
  by (simp add: reverse_geocode_def split: prod.splits)

lemma search_places_result:
  "fst (search_places api_key fo client query location radius w)
   = search_places_report fo
       (gateway_result api_key fo client ''place/textsearch/json''
          (search_places_params query location radius) w)"
  by (simp add: search_places_def split: prod.splits)

lemma get_place_details_result:
  "fst (get_place_details api_key fo client place_id w)
   = get_place_details_report fo
       (gateway_result api_key fo client ''place/details/json''
          [''place_id'' \<mapsto> place_id, ''fields'' \<mapsto> place_details_fields] w)"
  by (simp add: get_place_details_def split: prod.splits)

lemma get_directions_result:
  "mode \<in> set travel_modes \<Longrightarrow>
   fst (get_directions api_key fo client origin destination mode w)
   = get_directions_report fo mode
       (gateway_result api_key fo client ''directions/json''
          [''origin'' \<mapsto> origin, ''destination'' \<mapsto> destination, ''mode'' \<mapsto> mode] w)"
  by (simp add: get_directions_def split: prod.splits)

lemma calculate_distance_matrix_result:
  "mode \<in> set travel_modes \<Longrightarrow>
   fst (calculate_distance_matrix api_key fo client origins destinations mode w)
   = calculate_distance_matrix_report fo mode
       (gateway_result api_key fo client ''distancematrix/json''
          [''origins'' \<mapsto> join ''|'' origins, ''destinations'' \<mapsto> join ''|'' destinations,
           ''mode'' \<mapsto> mode] w)"
  by (simp add: calculate_distance_matrix_def split: prod.splits)

lemma get_elevation_result:
  "location_strings fo locations = Inr strs \<Longrightarrow>
   fst (get_elevation api_key fo client locations w)
   = get_elevation_report fo
       (gateway_result api_key fo client ''elevation/json'' [''locations'' \<mapsto> join ''|'' strs] w)"
  by (simp add: get_elevation_def split: prod.splits)

lemma gateway_result_eq:
  "gateway_result api_key fo client endpoint params w =
     (case sent api_key client endpoint params of
        Inl e \<Rightarrow> None
      | Inr response \<Rightarrow>
         (case raise_for_status response of
            Some e \<Rightarrow> None
          | None \<Rightarrow>
             (case response_json response of
                Inl e \<Rightarrow> None
              | Inr data \<Rightarrow>
                 if py_get data ''status'' JNull = Inr (JStr ''OK'') then Some data else None)))"
  apply (simp add: make_google_request_def Let_def split: sum.splits option.splits)
  apply (auto simp: py_eq_str_def split: json.splits)
  done

lemma geocode_absent: "absent_or_empty fo data ''results'' \<Longrightarrow>
   geocode_address_report fo data = Inr ''Unable to geocode the provided address.''"
  by (simp add: geocode_address_report_def no_data_absent bindE_def)

lemma reverse_absent: "absent_or_empty fo data ''results'' \<Longrightarrow>
   reverse_geocode_report fo latitude longitude data
   = Inr ''Unable to reverse geocode the provided coordinates.''"
  by (simp add: reverse_geocode_report_def no_data_absent bindE_def)

lemma search_absent: "absent_or_empty fo data ''results'' \<Longrightarrow>
   search_places_report fo data = Inr ''No places found for the search query.''"
  by (simp add: search_places_report_def no_data_absent bindE_def)

lemma details_absent: "absent_or_empty fo data ''result'' \<Longrightarrow>
   get_place_details_report fo data = Inr ''Unable to fetch place details.''"
  by (simp add: get_place_details_report_def no_data_absent bindE_def)

lemma directions_absent: "absent_or_empty fo data ''routes'' \<Longrightarrow>
   get_directions_report fo mode data = Inr ''Unable to find directions for the specified route.''"
  by (simp add: get_directions_report_def no_data_absent bindE_def)

lemma matrix_absent: "absent_or_empty fo data ''rows'' \<Longrightarrow>
   calculate_distance_matrix_report fo mode data = Inr ''Unable to calculate distance matrix.''"
  by (simp add: calculate_distance_matrix_report_def no_data_absent bindE_def)

lemma elevation_absent: "absent_or_empty fo data ''results'' \<Longrightarrow>
   get_elevation_report fo data = Inr ''Unable to fetch elevation data.''"
  by (simp add: get_elevation_report_def no_data_absent bindE_def)

subsection \<open>What the operations render\<close>

lemma all_strs_strs: "list_all is_str ts \<Longrightarrow> all_strs ts = Inr (map the_str ts)"
proof (induction ts)
  case Nil
  then show ?case by simp
next
  case (Cons t ts)
  then show ?case
    by (cases t) (simp_all add: is_str_def the_str_def bindE_def)
qed

lemma place_info_listed:
  assumes "listed_place v"
  shows "place_info fo v = Inr (place_text fo v)"
proof -
  from assms obtain place where v: "v = JObj place"
    by (cases v) (simp_all add: listed_place_def)
  from assms v obtain name pid where n: "map_of place ''name'' = Some name"
    and p: "map_of place ''place_id'' = Some pid"
    by (auto simp: listed_place_def)
  show ?thesis
  proof (cases "map_of place ''types''")
    case None
    with v n p show ?thesis
      by (simp add: place_info_def place_text_def bindE_def field_or_def place_types_def
          py_join_def split: option.splits)
  next
    case (Some t)
    with assms v obtain types where t: "t = JArr types" and s: "list_all is_str types"
      by (cases t) (simp_all add: listed_place_def)
    from Some t s v n p show ?thesis
      by (simp add: place_info_def place_text_def bindE_def field_or_def place_types_def
          py_join_def all_strs_strs split: option.splits)
  qed
qed

lemma places_loop_listed:
  "list_all listed_place vs \<Longrightarrow> places_loop fo vs acc = Inr (acc @ map (place_text fo) vs)"
  by (induction vs arbitrary: acc) (simp_all add: place_info_listed bindE_def)

lemma place_details_head_dict:
  "place_details_head fo (JObj place) = Inr (details_head fo place)"
  by (simp add: place_details_head_def details_head_def bindE_def field_or_def
      split: option.splits)

lemma join_strs: "list_all is_str days \<Longrightarrow> py_join sep (JArr days) = Inr (join sep (map the_str days))"
  by (simp add: py_join_def bindE_def all_strs_strs)

lemma weekday_text_ok:
  assumes "weekday_ok fo hours"
  shows "bindE (py_get (JObj hours) ''weekday_text'' JNull) (\<lambda>wt.
           if truthy fo wt then
             bindE (py_item (JObj hours) ''weekday_text'') (\<lambda>weekday_text.
             bindE (py_join ''\<newline>'' weekday_text) (\<lambda>joined.
               Inr (details @ ''\<newline>Opening Hours:\<newline>'' @ joined)))
           else Inr details)
         = Inr (details @ weekday_section fo hours)"
proof (cases "map_of hours ''weekday_text''")
  case None
  then show ?thesis
    by (simp add: bindE_def weekday_section_def)
next
  case (Some wt)
  show ?thesis
  proof (cases "truthy fo wt")
    case False
    with Some show ?thesis
      by (cases wt) (simp_all add: bindE_def weekday_section_def)
  next
    case True
    with Some assms obtain days where d: "wt = JArr days" and s: "list_all is_str days"
      by (cases wt) (simp_all add: weekday_ok_def)
    from True d have "days \<noteq> []"
      by simp
    with Some d s show ?thesis
      by (simp add: bindE_def weekday_section_def join_strs)
  qed
qed

lemma opening_hours_text_ok:
  assumes "hours_ok fo place"
  shows "opening_hours_text fo (JObj place) details = Inr (details @ hours_section fo place)"
proof (cases "map_of place ''opening_hours''")
  case None
  then show ?thesis
    by (simp add: opening_hours_text_def bindE_def hours_section_def)
next
  case (Some oh)
  show ?thesis
  proof (cases "truthy fo oh")
    case False
    with Some show ?thesis
      by (cases oh) (simp_all add: opening_hours_text_def bindE_def hours_section_def)
  next
    case True
    with Some assms obtain hours where h: "oh = JObj hours" and w: "weekday_ok fo hours"
      by (cases oh) (simp_all add: hours_ok_def)
    from True h have ne: "hours \<noteq> []"
      by simp
    have o: "py_get (JObj hours) ''open_now'' JNull
             = Inr (case map_of hours ''open_now'' of None \<Rightarrow> JNull | Some v \<Rightarrow> v)"
      by simp
    have "opening_hours_text fo (JObj place) details
          = bindE (Inr (details @ weekday_section fo hours)) (\<lambda>details.
              bindE (py_get (JObj hours) ''open_now'' JNull) (\<lambda>open_now.
                Inr (details @ ''\<newline>Currently Open: '' @
                     (if truthy fo open_now then ''Yes'' else ''No''))))"
      using Some h ne weekday_text_ok [OF w, of details]
      by (simp add: opening_hours_text_def bindE_def)
    also have "\<dots> = Inr (details @ hours_section fo place)"
      using Some h ne
      by (simp add: bindE_def hours_section_def open_now_text_def split: option.splits)
    finally show ?thesis .
  qed
qed

lemma review_text_ok:
  assumes "review_ok review"
  shows "review_text fo review = Inr (review_line fo review)"
proof -
  from assms obtain r where r: "review = JObj r"
    by (cases review) (simp_all add: review_ok_def)
  from assms r obtain a g where a: "map_of r ''author_name'' = Some a"
    and g: "map_of r ''rating'' = Some g"
    by (auto simp: review_ok_def)
  from assms r obtain t where t: "map_of r ''text'' = Some (JStr t)"
    by (auto simp: review_ok_def split: option.splits json.splits)
  show ?thesis
    by (simp add: review_text_def review_line_def r a g t bindE_def the_str_def py_str_def)
qed

lemma reviews_loop_ok:
  "list_all review_ok items \<Longrightarrow>
   reviews_loop fo items details = Inr (details @ concat (map (review_line fo) items))"
  by (induction items arbitrary: details) (simp_all add: review_text_ok bindE_def)

lemma reviews_text_ok:
  assumes "reviews_ok fo place"
  shows "reviews_text fo (JObj place) details = Inr (details @ reviews_section fo place)"
proof (cases "map_of place ''reviews''")
  case None
  then show ?thesis
    by (simp add: reviews_text_def bindE_def reviews_section_def)
next
  case (Some rv)
  show ?thesis
  proof (cases "truthy fo rv")
    case False
    with Some show ?thesis
      by (cases rv) (simp_all add: reviews_text_def bindE_def reviews_section_def)
  next
    case True
    with Some assms obtain reviews where v: "rv = JArr reviews"
      and ok: "list_all review_ok (take 3 reviews)"
      by (cases rv) (simp_all add: reviews_ok_def)
    from True v have "reviews \<noteq> []"
      by simp
    with Some v show ?thesis
      by (simp add: reviews_text_def bindE_def reviews_section_def reviews_loop_ok [OF ok])
  qed
qed

lemma details_report_ok:
  assumes "map_of payload ''result'' = Some (JObj place)" and "place \<noteq> []"
    and "hours_ok fo place" and "reviews_ok fo place"
  shows "get_place_details_report fo (Some (JObj payload))
         = Inr (details_head fo place @ hours_section fo place @ reviews_section fo place)"
proof -
  from assms(1) have "payload \<noteq> []"
    by auto
  with assms(1,2) show ?thesis
    by (simp add: get_place_details_report_def no_data_def bindE_def place_details_head_dict
        opening_hours_text_ok [OF assms(3)] reviews_text_ok [OF assms(4)])
qed



lemma strip_tags_str: "strip_tags (JStr html) = Inr (JStr (stripped html))"
  by (simp add: strip_tags_def py_replace_def bindE_def stripped_def)

lemma step_line_parts:
  assumes "step_parts step = Some (html, distance_text, duration_text)"
  shows "step_line fo i step = Inr (numbered_step fo (i, html, distance_text, duration_text))"
proof -
  from assms have h: "py_item step ''html_instructions'' = Inr (JStr html)"
    by (auto simp: step_parts_def split: sum.splits json.splits)
  from assms have d: "text_in step ''distance'' = Inr distance_text"
    by (auto simp: step_parts_def split: sum.splits json.splits)
  from assms have u: "text_in step ''duration'' = Inr duration_text"
    by (auto simp: step_parts_def split: sum.splits json.splits)
  from d obtain dv where d1: "py_item step ''distance'' = Inr dv"
    and d2: "py_item dv ''text'' = Inr distance_text"
    by (auto simp: text_in_def bindE_def split: sum.splits)
  from u obtain uv where u1: "py_item step ''duration'' = Inr uv"
    and u2: "py_item uv ''text'' = Inr duration_text"
    by (auto simp: text_in_def bindE_def split: sum.splits)
  show ?thesis
    by (simp add: step_line_def h strip_tags_str d1 d2 u1 u2 bindE_def numbered_step_def py_str_def)
qed

lemma steps_loop_parts:
  "map step_parts steps = map Some parts \<Longrightarrow>
   steps_loop fo i steps acc = Inr (acc @ concat (map (numbered_step fo) (enumerate i parts)))"
proof (induction steps arbitrary: parts i acc)
  case Nil
  then show ?case by simp
next
  case (Cons step steps)
  then obtain p ps where ps: "parts = p # ps" and p: "step_parts step = Some p"
    and rest: "map step_parts steps = map Some ps"
    by (cases parts) auto
  obtain html dt du where "p = (html, dt, du)"
    by (cases p)
  with p have "step_line fo i step = Inr (numbered_step fo (i, p))"
    by (simp add: step_line_parts)
  with Cons.IH [OF rest] ps show ?case
    by (simp add: bindE_def)
qed

lemma text_in_parts:
  assumes "text_in v k = Inr t"
  obtains d where "py_item v k = Inr d" and "py_item d ''text'' = Inr t"
  using assms by (auto simp: text_in_def bindE_def split: sum.splits)

lemma directions_head_parts:
  assumes s: "py_get route ''summary'' (JStr ''Direct route'') = Inr summary"
    and d: "text_in leg ''distance'' = Inr distance_text"
    and u: "text_in leg ''duration'' = Inr duration_text"
  shows "directions_head fo mode route leg
         = Inr (''\<newline>Route Summary: '' @ py_str fo summary @
                ''\<newline>Distance: '' @ py_str fo distance_text @
                ''\<newline>Duration: '' @ py_str fo duration_text @
                ''\<newline>Travel Mode: '' @ title mode @
                ''\<newline>\<newline>Turn-by-Turn Directions:\<newline>'')"
proof -
  from d obtain dv where d1: "py_item leg ''distance'' = Inr dv"
    and d2: "py_item dv ''text'' = Inr distance_text"
    by (rule text_in_parts)
  from u obtain uv where u1: "py_item leg ''duration'' = Inr uv"
    and u2: "py_item uv ''text'' = Inr duration_text"
    by (rule text_in_parts)
  show ?thesis
    by (simp add: directions_head_def s d1 d2 u1 u2 bindE_def)
qed

lemma directions_report_parts:
  assumes r: "map_of payload ''routes'' = Some (JArr (route # more_routes))"
    and s: "py_get route ''summary'' (JStr ''Direct route'') = Inr summary"
    and l: "py_item route ''legs'' = Inr (JArr (leg # more_legs))"
    and d: "text_in leg ''distance'' = Inr distance_text"
    and u: "text_in leg ''duration'' = Inr duration_text"
    and t: "py_item leg ''steps'' = Inr (JArr steps)"
    and p: "map step_parts (take 10 steps) = map Some parts"
  shows "get_directions_report fo mode (Some (JObj payload))
         = Inr (directions_text fo mode summary distance_text duration_text parts)"
proof -
  from r have ne: "payload \<noteq> []"
    by auto
  show ?thesis
    using ne r l t
    by (simp add: get_directions_report_def no_data_def bindE_def directions_text_def
        directions_head_parts [OF s d u] steps_loop_parts [OF p])
qed

subsection \<open>The gateway writes the credential into the caller's params\<close>

text \<open>
  C10. Every call of \<open>make_google_request\<close> leaves the caller's \<open>params\<close> with the
  credential under \<open>''key''\<close> and every other entry as it was, and the request it sends
  carries these params.
\<close>

theorem make_google_request_inserts_key:
  "snd (fst (make_google_request api_key fo client endpoint params w)) = params(''key'' \<mapsto> api_key)
   \<and> snd (fst (make_google_request api_key fo client endpoint params w)) |` (- {''key''})
       = params |` (- {''key''})
   \<and> requests (snd (make_google_request api_key fo client endpoint params w))
       = requests w @ [(GOOGLE_MAPS_BASE_URL @ ''/'' @ endpoint, params(''key'' \<mapsto> api_key))]"
  by (simp add: make_google_request_def Let_def print_def split: sum.splits option.splits)

subsection \<open>The geocoding scenario\<close>

text \<open>
  C9. Geocoding "1600 Amphitheatre Parkway, Mountain View, CA" against an upstream that
  answers with one result (that formatted address, the location 37.4224764,
  -122.0842499 and the place id) returns a report with the address, both coordinates
  and the place id as they are. The coordinates are floats: the report shows what
  \<^verbatim>\<open>str\<close> gives for them.
\<close>

theorem geocode_address_scenario:
  assumes "float_str fo lat = ''37.4224764''" and "float_str fo lng = ''-122.0842499''"
  shows "fst (geocode_address api_key fo (mock (geocode_payload lat lng))
                ''1600 Amphitheatre Parkway, Mountain View, CA'' w)
         = Inr (''\<newline>Address: '' @ ''1600 Amphitheatre Parkway, Mountain View, CA, USA'' @
                ''\<newline>Coordinates: '' @ ''37.4224764'' @ '', '' @ ''-122.0842499'' @
                ''\<newline>Place ID: '' @ ''ChIJ2eUgeAK6j4ARbn5u_wAGqWA'' @ ''\<newline>'')"
  using assms
  by (simp add: geocode_address_def make_google_request_def Let_def mock_def geocode_payload_def
      geocode_address_report_def no_data_def bindE_def py_eq_str_def py_str_def)

theorem geocode_address_scenario_witness:
  "float_str text_floats ''37.4224764'' = ''37.4224764''
   \<and> float_str text_floats ''-122.0842499'' = ''-122.0842499''
   \<and> fst (geocode_address ''secret'' text_floats
              (mock (geocode_payload ''37.4224764'' ''-122.0842499''))
              ''1600 Amphitheatre Parkway, Mountain View, CA'' fresh_world)
       = Inr (''\<newline>Address: 1600 Amphitheatre Parkway, Mountain View, CA, USA'' @
              ''\<newline>Coordinates: 37.4224764, -122.0842499'' @
              ''\<newline>Place ID: ChIJ2eUgeAK6j4ARbn5u_wAGqWA\<newline>'')"
proof -
  have a: "float_str text_floats ''37.4224764'' = ''37.4224764''"
    by (simp add: text_floats_def)
  have b: "float_str text_floats ''-122.0842499'' = ''-122.0842499''"
    by (simp add: text_floats_def)
  show ?thesis
    using a b geocode_address_scenario [OF a b, of "''secret''" fresh_world] by simp
qed

subsection \<open>An invalid travel mode is refused before any request\<close>

text \<open>
  C3. With a mode outside driving, walking, bicycling, transit, \<open>get_directions\<close> and
  \<open>calculate_distance_matrix\<close> return the error text at once and leave the world as it
  was: no request has been sent, so the gateway, which sends one on every call
  (\<open>make_google_request_inserts_key\<close> has the equation), has not been called.
\<close>

theorem invalid_mode_no_request:
  assumes "mode \<notin> {''driving'', ''walking'', ''bicycling'', ''transit''}"
  shows "get_directions api_key fo client origin destination mode w
           = (Inr ''Invalid travel mode. Use: driving, walking, bicycling, or transit'', w)
         \<and> calculate_distance_matrix api_key fo client origins destinations mode w
           = (Inr ''Invalid travel mode. Use: driving, walking, bicycling, or transit'', w)"
  using assms
  by (simp add: get_directions_def calculate_distance_matrix_def travel_modes_def
      invalid_mode_text_def)

theorem invalid_mode_no_request_witness:
  "''flying'' \<notin> {''driving'', ''walking'', ''bicycling'', ''transit''}
   \<and> requests (snd (get_directions ''secret'' text_floats (mock JNull) ''A'' ''B'' ''flying''
                      fresh_world)) = []
   \<and> requests (snd (calculate_distance_matrix ''secret'' text_floats (mock JNull) [''A''] [''B'']
                      ''flying'' fresh_world)) = []"
proof -
  have m: "''flying'' \<notin> {''driving'', ''walking'', ''bicycling'', ''transit''}"
    by simp
  show ?thesis
    using m invalid_mode_no_request [OF m, of "''secret''" text_floats "mock JNull" "''A''" "''B''"
        fresh_world "[''A'']" "[''B'']"]
    by (simp add: fresh_world_def)
qed

subsection \<open>Upstream failures give the fixed text\<close>

text \<open>
  C1. The gateway returns \<^verbatim>\<open>None\<close> when the client raises, when the HTTP status check
  raises, when decoding the body raises and when the status of the body is not "OK".
  Every operation whose gateway call returned \<^verbatim>\<open>None\<close>, or a payload with nothing in the
  list the operation reads, returns its fixed text and raises nothing.
\<close>

theorem upstream_failure_fixed_message:
  "(sent api_key client endpoint params = Inl e
      \<longrightarrow> gateway_result api_key fo client endpoint params w = None)
   \<and> (sent api_key client endpoint params = Inr response \<and> raise_for_status response = Some e
      \<longrightarrow> gateway_result api_key fo client endpoint params w = None)
   \<and> (sent api_key client endpoint params = Inr response \<and> raise_for_status response = None
        \<and> response_json response = Inl e
      \<longrightarrow> gateway_result api_key fo client endpoint params w = None)
   \<and> (sent api_key client endpoint params = Inr response \<and> raise_for_status response = None
        \<and> response_json response = Inr body \<and> py_get body ''status'' JNull \<noteq> Inr (JStr ''OK'')
      \<longrightarrow> gateway_result api_key fo client endpoint params w = None)
   \<and> (absent_or_empty fo
         (gateway_result api_key fo client ''geocode/json'' [''address'' \<mapsto> address] w) ''results''
      \<longrightarrow> fst (geocode_address api_key fo client address w)
          = Inr ''Unable to geocode the provided address.'')
   \<and> (absent_or_empty fo
         (gateway_result api_key fo client ''geocode/json''
            [''latlng'' \<mapsto> float_str fo latitude @ '','' @ float_str fo longitude] w) ''results''
      \<longrightarrow> fst (reverse_geocode api_key fo client latitude longitude w)
          = Inr ''Unable to reverse geocode the provided coordinates.'')
   \<and> (absent_or_empty fo
         (gateway_result api_key fo client ''place/textsearch/json''
            (search_places_params query location radius) w) ''results''
      \<longrightarrow> fst (search_places api_key fo client query location radius w)
          = Inr ''No places found for the search query.'')
   \<and> (absent_or_empty fo
         (gateway_result api_key fo client ''place/details/json''
            [''place_id'' \<mapsto> place_id, ''fields'' \<mapsto> place_details_fields] w) ''result''
      \<longrightarrow> fst (get_place_details api_key fo client place_id w)
          = Inr ''Unable to fetch place details.'')
   \<and> (mode \<in> set travel_modes
        \<and> absent_or_empty fo
         (gateway_result api_key fo client ''directions/json''
            [''origin'' \<mapsto> origin, ''destination'' \<mapsto> destination, ''mode'' \<mapsto> mode] w) ''routes''
      \<longrightarrow> fst (get_directions api_key fo client origin destination mode w)
          = Inr ''Unable to find directions for the specified route.'')
   \<and> (mode \<in> set travel_modes
        \<and> absent_or_empty fo
         (gateway_result api_key fo client ''distancematrix/json''
            [''origins'' \<mapsto> join ''|'' origins, ''destinations'' \<mapsto> join ''|'' destinations,
             ''mode'' \<mapsto> mode] w) ''rows''
      \<longrightarrow> fst (calculate_distance_matrix api_key fo client origins destinations mode w)
          = Inr ''Unable to calculate distance matrix.'')
   \<and> (location_strings fo locations = Inr strs
        \<and> absent_or_empty fo
         (gateway_result api_key fo client ''elevation/json''
            [''locations'' \<mapsto> join ''|'' strs] w) ''results''
      \<longrightarrow> fst (get_elevation api_key fo client locations w)
          = Inr ''Unable to fetch elevation data.'')"
proof -
  have g: "gateway_result api_key fo client endpoint params w =
     (case sent api_key client endpoint params of
        Inl e \<Rightarrow> None
      | Inr response \<Rightarrow>
         (case raise_for_status response of
            Some e \<Rightarrow> None
          | None \<Rightarrow>
             (case response_json response of
                Inl e \<Rightarrow> None
              | Inr data \<Rightarrow>
                 if py_get data ''status'' JNull = Inr (JStr ''OK'') then Some data else None)))"
    by (rule gateway_result_eq)
  have 1: "sent api_key client endpoint params = Inl e
      \<longrightarrow> gateway_result api_key fo client endpoint params w = None"
    by (simp add: g)
  have 2: "sent api_key client endpoint params = Inr response \<and> raise_for_status response = Some e
      \<longrightarrow> gateway_result api_key fo client endpoint params w = None"
    by (simp add: g)
  have 3: "sent api_key client endpoint params = Inr response \<and> raise_for_status response = None
        \<and> response_json response = Inl e
      \<longrightarrow> gateway_result api_key fo client endpoint params w = None"
    by (simp add: g)
  have 4: "sent api_key client endpoint params = Inr response \<and> raise_for_status response = None
        \<and> response_json response = Inr body \<and> py_get body ''status'' JNull \<noteq> Inr (JStr ''OK'')
      \<longrightarrow> gateway_result api_key fo client endpoint params w = None"
    by (simp add: g)
  have 5: "absent_or_empty fo
         (gateway_result api_key fo client ''geocode/json'' [''address'' \<mapsto> address] w) ''results''
      \<longrightarrow> fst (geocode_address api_key fo client address w)
          = Inr ''Unable to geocode the provided address.''"
    by (simp add: geocode_address_result geocode_absent)
  have 6: "absent_or_empty fo
         (gateway_result api_key fo client ''geocode/json''
            [''latlng'' \<mapsto> float_str fo latitude @ '','' @ float_str fo longitude] w) ''results''
      \<longrightarrow> fst (reverse_geocode api_key fo client latitude longitude w)
          = Inr ''Unable to reverse geocode the provided coordinates.''"
    by (simp add: reverse_geocode_result reverse_absent)
  have 7: "absent_or_empty fo
         (gateway_result api_key fo client ''place/textsearch/json''
            (search_places_params query location radius) w) ''results''
      \<longrightarrow> fst (search_places api_key fo client query location radius w)
          = Inr ''No places found for the search query.''"
    by (simp add: search_places_result search_absent)
  have 8: "absent_or_empty fo
         (gateway_result api_key fo client ''place/details/json''
            [''place_id'' \<mapsto> place_id, ''fields'' \<mapsto> place_details_fields] w) ''result''
      \<longrightarrow> fst (get_place_details api_key fo client place_id w)
          = Inr ''Unable to fetch place details.''"
    by (simp add: get_place_details_result details_absent)
  have 9: "mode \<in> set travel_modes
        \<and> absent_or_empty fo
         (gateway_result api_key fo client ''directions/json''
            [''origin'' \<mapsto> origin, ''destination'' \<mapsto> destination, ''mode'' \<mapsto> mode] w) ''routes''
      \<longrightarrow> fst (get_directions api_key fo client origin destination mode w)
          = Inr ''Unable to find directions for the specified route.''"
    by (simp add: get_directions_result directions_absent)
  have 10: "mode \<in> set travel_modes
        \<and> absent_or_empty fo
         (gateway_result api_key fo client ''distancematrix/json''
            [''origins'' \<mapsto> join ''|'' origins, ''destinations'' \<mapsto> join ''|'' destinations,
             ''mode'' \<mapsto> mode] w) ''rows''
      \<longrightarrow> fst (calculate_distance_matrix api_key fo client origins destinations mode w)
          = Inr ''Unable to calculate distance matrix.''"
    by (simp add: calculate_distance_matrix_result matrix_absent)
  have 11: "location_strings fo locations = Inr strs
        \<and> absent_or_empty fo
         (gateway_result api_key fo client ''elevation/json''
            [''locations'' \<mapsto> join ''|'' strs] w) ''results''
      \<longrightarrow> fst (get_elevation api_key fo client locations w)
          = Inr ''Unable to fetch elevation data.''"
    by (simp add: get_elevation_result elevation_absent)
  from 1 2 3 4 5 6 7 8 9 10 11 show ?thesis
    by (intro conjI)
qed

theorem upstream_failure_fixed_message_witness:
  "sent ''secret'' (unreachable :: string client) ''geocode/json'' [''address'' \<mapsto> ''x'']
     = Inl ''All connection attempts failed''
   \<and> fst (geocode_address ''secret'' text_floats unreachable ''x'' fresh_world)
     = Inr ''Unable to geocode the provided address.''
   \<and> absent_or_empty text_floats
       (gateway_result ''secret'' text_floats forbidden ''place/details/json''
          [''place_id'' \<mapsto> ''p'', ''fields'' \<mapsto> place_details_fields] fresh_world) ''result''
   \<and> fst (get_place_details ''secret'' text_floats forbidden ''p'' fresh_world)
     = Inr ''Unable to fetch place details.''
   \<and> ''walking'' \<in> set travel_modes
   \<and> absent_or_empty text_floats
       (gateway_result ''secret'' text_floats (mock zero_results) ''directions/json''
          [''origin'' \<mapsto> ''A'', ''destination'' \<mapsto> ''B'', ''mode'' \<mapsto> ''walking''] fresh_world)
       ''routes''
   \<and> fst (get_directions ''secret'' text_floats (mock zero_results) ''A'' ''B'' ''walking''
            fresh_world)
     = Inr ''Unable to find directions for the specified route.''
   \<and> location_strings text_floats [[(''lat'', ''1.5''), (''lng'', ''2.5'')]] = Inr [''1.5,2.5'']
   \<and> absent_or_empty text_floats
       (gateway_result ''secret'' text_floats (mock no_results) ''elevation/json''
          [''locations'' \<mapsto> join ''|'' [''1.5,2.5'']] fresh_world) ''results''
   \<and> fst (get_elevation ''secret'' text_floats (mock no_results)
            [[(''lat'', ''1.5''), (''lng'', ''2.5'')]] fresh_world)
     = Inr ''Unable to fetch elevation data.''"
proof -
  have a: "sent ''secret'' (unreachable :: string client) ''geocode/json'' [''address'' \<mapsto> ''x'']
     = Inl ''All connection attempts failed''"
    by (simp add: unreachable_def)
  have a': "absent_or_empty text_floats
       (gateway_result ''secret'' text_floats unreachable ''geocode/json''
          [''address'' \<mapsto> ''x''] fresh_world) ''results''"
    using a upstream_failure_fixed_message [where api_key = "''secret''" and client = unreachable
        and endpoint = "''geocode/json''" and params = "[''address'' \<mapsto> ''x'']"
        and e = "''All connection attempts failed''" and fo = text_floats and w = fresh_world]
    by (simp add: absent_or_empty_def)
  have b: "absent_or_empty text_floats
       (gateway_result ''secret'' text_floats forbidden ''place/details/json''
          [''place_id'' \<mapsto> ''p'', ''fields'' \<mapsto> place_details_fields] fresh_world) ''result''"
    by (simp add: absent_or_empty_def make_google_request_def forbidden_def Let_def)
  have c: "''walking'' \<in> set travel_modes"
    by (simp add: travel_modes_def)
  have d: "absent_or_empty text_floats
       (gateway_result ''secret'' text_floats (mock zero_results) ''directions/json''
          [''origin'' \<mapsto> ''A'', ''destination'' \<mapsto> ''B'', ''mode'' \<mapsto> ''walking''] fresh_world)
       ''routes''"
    by (simp add: absent_or_empty_def make_google_request_def mock_def zero_results_def Let_def
        py_eq_str_def)
  have e: "location_strings text_floats [[(''lat'', ''1.5''), (''lng'', ''2.5'')]] = Inr [''1.5,2.5'']"
    by (simp add: location_string_def bindE_def text_floats_def)
  have f: "absent_or_empty text_floats
       (gateway_result ''secret'' text_floats (mock no_results) ''elevation/json''
          [''locations'' \<mapsto> join ''|'' [''1.5,2.5'']] fresh_world) ''results''"
    by (simp add: absent_or_empty_def make_google_request_def mock_def no_results_def Let_def
        py_eq_str_def)
  show ?thesis
    using a a' b c d e f
      upstream_failure_fixed_message [where api_key = "''secret''" and fo = text_floats
        and client = unreachable and address = "''x''" and w = fresh_world]
      upstream_failure_fixed_message [where api_key = "''secret''" and fo = text_floats
        and client = forbidden and place_id = "''p''" and w = fresh_world]
      upstream_failure_fixed_message [where api_key = "''secret''" and fo = text_floats
        and client = "mock zero_results" and origin = "''A''" and destination = "''B''"
        and mode = "''walking''" and w = fresh_world]
      upstream_failure_fixed_message [where api_key = "''secret''" and fo = text_floats
        and client = "mock no_results" and w = fresh_world
        and locations = "[[(''lat'', ''1.5''), (''lng'', ''2.5'')]]" and strs = "[''1.5,2.5'']"]
    by simp
qed

subsection \<open>Where the credential goes\<close>

lemma gateway_result_answer:
  "gateway_result api_key fo client endpoint params w =
     (case answer (sent api_key client endpoint params) of
        None \<Rightarrow> None
      | Some body \<Rightarrow> if py_get body ''status'' JNull = Inr (JStr ''OK'') then Some body else None)"
  by (simp add: gateway_result_eq answer_def split: sum.splits option.splits)

lemma gateway_same_answer:
  assumes "answer (sent ka client endpoint params) = answer (sent kb client endpoint params)"
  shows "gateway_result ka fo client endpoint params w
         = gateway_result kb fo client endpoint params w"
  using assms by (simp only: gateway_result_answer)

text \<open>
  C4, as stated, fails. The gateway prints the text of whatever exception the client or
  the response raises. The text of an HTTP status error is written by the HTTP library
  from the request, whose parameters hold the credential: with an upstream answering
  403, the line printed has the URL of the request and the credential in it.
\<close>

theorem credential_in_log_counterexample:
  "printed (snd (geocode_address ''secret'' text_floats forbidden ''x'' fresh_world))
   = [''Request failed: Client error '' @ [CHR 0x27] @ ''403 Forbidden'' @ [CHR 0x27] @
      '' for url '' @ [CHR 0x27] @
      ''https://maps.googleapis.com/maps/api/geocode/json?address=x&key='' @ ''secret'' @
      [CHR 0x27] @ ''\<newline>For more information check: '' @
      ''https://developer.mozilla.org/en-US/docs/Web/HTTP/Status/403'']"
  by code_simp

text \<open>
  C4, amended. The text an operation returns is made from its arguments and from what
  the upstream answered, and from nothing else: two runs that differ only in the
  credential, in which the client either fails both times (whatever the text of the
  exception) or delivers the same decoded body both times, return the same text, or
  raise the same exception. Nothing is said of the diagnostic output.
\<close>

theorem text_result_depends_on_answer_only:
  "(answer (sent k1 client ''geocode/json'' [''address'' \<mapsto> address])
      = answer (sent k2 client ''geocode/json'' [''address'' \<mapsto> address])
    \<longrightarrow> fst (geocode_address k1 fo client address w) = fst (geocode_address k2 fo client address w))
   \<and> (answer (sent k1 client ''geocode/json''
        [''latlng'' \<mapsto> float_str fo latitude @ '','' @ float_str fo longitude])
      = answer (sent k2 client ''geocode/json''
        [''latlng'' \<mapsto> float_str fo latitude @ '','' @ float_str fo longitude])
    \<longrightarrow> fst (reverse_geocode k1 fo client latitude longitude w)
        = fst (reverse_geocode k2 fo client latitude longitude w))
   \<and> (answer (sent k1 client ''place/textsearch/json'' (search_places_params query location radius))
      = answer (sent k2 client ''place/textsearch/json'' (search_places_params query location radius))
    \<longrightarrow> fst (search_places k1 fo client query location radius w)
        = fst (search_places k2 fo client query location radius w))
   \<and> (answer (sent k1 client ''place/details/json''
        [''place_id'' \<mapsto> place_id, ''fields'' \<mapsto> place_details_fields])
      = answer (sent k2 client ''place/details/json''
        [''place_id'' \<mapsto> place_id, ''fields'' \<mapsto> place_details_fields])
    \<longrightarrow> fst (get_place_details k1 fo client place_id w)
        = fst (get_place_details k2 fo client place_id w))
   \<and> (answer (sent k1 client ''directions/json''
        [''origin'' \<mapsto> origin, ''destination'' \<mapsto> destination, ''mode'' \<mapsto> mode])
      = answer (sent k2 client ''directions/json''
        [''origin'' \<mapsto> origin, ''destination'' \<mapsto> destination, ''mode'' \<mapsto> mode])
    \<longrightarrow> fst (get_directions k1 fo client origin destination mode w)
        = fst (get_directions k2 fo client origin destination mode w))
   \<and> (answer (sent k1 client ''distancematrix/json''
        [''origins'' \<mapsto> join ''|'' origins, ''destinations'' \<mapsto> join ''|'' destinations,
         ''mode'' \<mapsto> mode])
      = answer (sent k2 client ''distancematrix/json''
        [''origins'' \<mapsto> join ''|'' origins, ''destinations'' \<mapsto> join ''|'' destinations,
         ''mode'' \<mapsto> mode])
    \<longrightarrow> fst (calculate_distance_matrix k1 fo client origins destinations mode w)
        = fst (calculate_distance_matrix k2 fo client origins destinations mode w))
   \<and> ((case location_strings fo locations of
         Inl err \<Rightarrow> True
       | Inr strs \<Rightarrow>
          answer (sent k1 client ''elevation/json'' [''locations'' \<mapsto> join ''|'' strs])
          = answer (sent k2 client ''elevation/json'' [''locations'' \<mapsto> join ''|'' strs]))
    \<longrightarrow> fst (get_elevation k1 fo client locations w) = fst (get_elevation k2 fo client locations w))"
proof -
  have 1: "answer (sent k1 client ''geocode/json'' [''address'' \<mapsto> address])
      = answer (sent k2 client ''geocode/json'' [''address'' \<mapsto> address])
    \<longrightarrow> fst (geocode_address k1 fo client address w) = fst (geocode_address k2 fo client address w)"
    using gateway_same_answer [where ka = k1 and kb = k2 and client = client and fo = fo and w = w]
    by (simp add: geocode_address_result)
  have 2: "answer (sent k1 client ''geocode/json''
        [''latlng'' \<mapsto> float_str fo latitude @ '','' @ float_str fo longitude])
      = answer (sent k2 client ''geocode/json''
        [''latlng'' \<mapsto> float_str fo latitude @ '','' @ float_str fo longitude])
    \<longrightarrow> fst (reverse_geocode k1 fo client latitude longitude w)
        = fst (reverse_geocode k2 fo client latitude longitude w)"
    using gateway_same_answer [where ka = k1 and kb = k2 and client = client and fo = fo and w = w]
    by (simp add: reverse_geocode_result)
  have 3: "answer (sent k1 client ''place/textsearch/json'' (search_places_params query location radius))
      = answer (sent k2 client ''place/textsearch/json'' (search_places_params query location radius))
    \<longrightarrow> fst (search_places k1 fo client query location radius w)
        = fst (search_places k2 fo client query location radius w)"
    using gateway_same_answer [where ka = k1 and kb = k2 and client = client and fo = fo and w = w]
    by (simp add: search_places_result)
  have 4: "answer (sent k1 client ''place/details/json''
        [''place_id'' \<mapsto> place_id, ''fields'' \<mapsto> place_details_fields])
      = answer (sent k2 client ''place/details/json''
        [''place_id'' \<mapsto> place_id, ''fields'' \<mapsto> place_details_fields])
    \<longrightarrow> fst (get_place_details k1 fo client place_id w)
        = fst (get_place_details k2 fo client place_id w)"
    using gateway_same_answer [where ka = k1 and kb = k2 and client = client and fo = fo and w = w]
    by (simp add: get_place_details_result)
  have 5: "answer (sent k1 client ''directions/json''
        [''origin'' \<mapsto> origin, ''destination'' \<mapsto> destination, ''mode'' \<mapsto> mode])
      = answer (sent k2 client ''directions/json''
        [''origin'' \<mapsto> origin, ''destination'' \<mapsto> destination, ''mode'' \<mapsto> mode])
    \<longrightarrow> fst (get_directions k1 fo client origin destination mode w)
        = fst (get_directions k2 fo client origin destination mode w)"
  proof (cases "mode \<in> set travel_modes")
    case True
    then show ?thesis
      using gateway_same_answer [where ka = k1 and kb = k2 and client = client and fo = fo and w = w]
      by (simp add: get_directions_result)
  next
    case False
    then show ?thesis by (simp add: get_directions_def)
  qed
  have 6: "answer (sent k1 client ''distancematrix/json''
        [''origins'' \<mapsto> join ''|'' origins, ''destinations'' \<mapsto> join ''|'' destinations,
         ''mode'' \<mapsto> mode])
      = answer (sent k2 client ''distancematrix/json''
        [''origins'' \<mapsto> join ''|'' origins, ''destinations'' \<mapsto> join ''|'' destinations,
         ''mode'' \<mapsto> mode])
    \<longrightarrow> fst (calculate_distance_matrix k1 fo client origins destinations mode w)
        = fst (calculate_distance_matrix k2 fo client origins destinations mode w)"
  proof (cases "mode \<in> set travel_modes")
    case True
    then show ?thesis
      using gateway_same_answer [where ka = k1 and kb = k2 and client = client and fo = fo and w = w]
      by (simp add: calculate_distance_matrix_result)
  next
    case False
    then show ?thesis by (simp add: calculate_distance_matrix_def)
  qed
  have 7: "(case location_strings fo locations of
         Inl err \<Rightarrow> True
       | Inr strs \<Rightarrow>
          answer (sent k1 client ''elevation/json'' [''locations'' \<mapsto> join ''|'' strs])
          = answer (sent k2 client ''elevation/json'' [''locations'' \<mapsto> join ''|'' strs]))
    \<longrightarrow> fst (get_elevation k1 fo client locations w) = fst (get_elevation k2 fo client locations w)"
  proof (cases "location_strings fo locations")
    case (Inl err)
    then show ?thesis by (simp add: get_elevation_def)
  next
    case (Inr strs)
    then show ?thesis
      using gateway_same_answer [where ka = k1 and kb = k2 and client = client and fo = fo and w = w]
      by (simp add: get_elevation_result)
  qed
  from 1 2 3 4 5 6 7 show ?thesis
    by (intro conjI)
qed

theorem text_result_depends_on_answer_only_witness:
  "answer (sent ''secret'' (forbidden :: string client) ''geocode/json'' [''address'' \<mapsto> ''x''])
     = answer (sent ''other'' forbidden ''geocode/json'' [''address'' \<mapsto> ''x''])
   \<and> sent ''secret'' (forbidden :: string client) ''geocode/json'' [''address'' \<mapsto> ''x'']
     \<noteq> sent ''other'' forbidden ''geocode/json'' [''address'' \<mapsto> ''x'']
   \<and> fst (geocode_address ''secret'' text_floats forbidden ''x'' fresh_world)
     = fst (geocode_address ''other'' text_floats forbidden ''x'' fresh_world)
   \<and> answer (sent ''secret'' (mock (geocode_payload ''1.5'' ''2.5'')) ''geocode/json''
        [''address'' \<mapsto> ''x''])
     = answer (sent ''other'' (mock (geocode_payload ''1.5'' ''2.5'')) ''geocode/json''
        [''address'' \<mapsto> ''x''])
   \<and> fst (geocode_address ''secret'' text_floats (mock (geocode_payload ''1.5'' ''2.5'')) ''x''
            fresh_world)
     = fst (geocode_address ''other'' text_floats (mock (geocode_payload ''1.5'' ''2.5'')) ''x''
            fresh_world)"
proof -
  have a: "answer (sent ''secret'' (forbidden :: string client) ''geocode/json''
             [''address'' \<mapsto> ''x''])
           = answer (sent ''other'' forbidden ''geocode/json'' [''address'' \<mapsto> ''x''])"
    by (simp add: answer_def forbidden_def)
  have b: "sent ''secret'' (forbidden :: string client) ''geocode/json'' [''address'' \<mapsto> ''x'']
           \<noteq> sent ''other'' forbidden ''geocode/json'' [''address'' \<mapsto> ''x'']"
    by code_simp
  have c: "answer (sent ''secret'' (mock (geocode_payload ''1.5'' ''2.5'')) ''geocode/json''
             [''address'' \<mapsto> ''x''])
           = answer (sent ''other'' (mock (geocode_payload ''1.5'' ''2.5'')) ''geocode/json''
               [''address'' \<mapsto> ''x''])"
    by (simp add: mock_def)
  show ?thesis
    using a b c
      text_result_depends_on_answer_only [where ?k1.0 = "''secret''" and ?k2.0 = "''other''"
        and client = forbidden and address = "''x''" and fo = text_floats and w = fresh_world]
      text_result_depends_on_answer_only [where ?k1.0 = "''secret''" and ?k2.0 = "''other''"
        and client = "mock (geocode_payload ''1.5'' ''2.5'')" and address = "''x''"
        and fo = text_floats and w = fresh_world]
    by simp
qed

subsection \<open>Missing fields\<close>

text \<open>
  C2, as stated, fails. A field read by indexing has to be there: on a geocoding result
  without \<open>place_id\<close> the operation raises KeyError.
\<close>

theorem missing_field_counterexample:
  "fst (geocode_address ''secret'' text_floats (mock missing_place_id) ''1 Main St'' fresh_world)
   = Inl KeyError"
  by (simp add: geocode_address_def make_google_request_def Let_def mock_def missing_place_id_def
      geocode_address_report_def no_data_def bindE_def py_eq_str_def)

text \<open>
  C2, amended. A field that an operation reads with a default may be missing from a
  payload that has what the operation reads by indexing: it is rendered as its
  placeholder, or its section is left out, and the operation returns its text.
  \<^item> \<open>search_places\<close>, when each of the first five results is a dict with a name and a
    place id whose \<open>types\<close>, if there, is a list of strs: the blocks of these results,
    joined, with "Address not available" and "No rating" for a missing address and
    rating, and no types for missing \<open>types\<close>.
  \<^item> \<open>get_place_details\<close>, when the result is a dict that is not empty, its opening hours
    are missing, false, or a dict whose \<open>weekday_text\<close> is missing, false or a list of
    strs, and its reviews are missing, false, or a list whose first three are dicts with
    an author name, a rating and a str text: the five lines, with "Unknown", "Address
    not available", "Phone not available", "Website not available", "No rating" for what
    is missing, then the opening hours and the reviews, each left out when missing.
  \<^item> \<open>get_directions\<close>, when the mode is valid, the first route is a dict with legs, its
    first leg has the texts of distance and duration and its steps, and each of the
    first ten steps has a str instruction and the two texts: the report, with "Direct
    route" for a missing summary.
\<close>

theorem defaulted_fields_render_placeholders:
  "(gateway_result api_key fo client ''place/textsearch/json''
        (search_places_params query location radius) w = Some (JObj payload)
    \<and> map_of payload ''results'' = Some (JArr places) \<and> places \<noteq> []
    \<and> list_all listed_place (take 5 places)
    \<longrightarrow> fst (search_places api_key fo client query location radius w)
        = Inr (join ''\<newline>---\<newline>'' (map (place_text fo) (take 5 places))))
   \<and> (gateway_result api_key fo client ''place/details/json''
        [''place_id'' \<mapsto> place_id, ''fields'' \<mapsto> place_details_fields] w = Some (JObj payload)
    \<and> map_of payload ''result'' = Some (JObj place) \<and> place \<noteq> []
    \<and> hours_ok fo place \<and> reviews_ok fo place
    \<longrightarrow> fst (get_place_details api_key fo client place_id w)
        = Inr (''\<newline>Name: '' @ py_str fo (field_or place ''name'' ''Unknown'') @
               ''\<newline>Address: '' @
               py_str fo (field_or place ''formatted_address'' ''Address not available'') @
               ''\<newline>Phone: '' @
               py_str fo (field_or place ''formatted_phone_number'' ''Phone not available'') @
               ''\<newline>Website: '' @
               py_str fo (field_or place ''website'' ''Website not available'') @
               ''\<newline>Rating: '' @ py_str fo (field_or place ''rating'' ''No rating'') @
               '' stars\<newline>'' @ hours_section fo place @ reviews_section fo place))
   \<and> (mode \<in> set travel_modes
    \<and> gateway_result api_key fo client ''directions/json''
        [''origin'' \<mapsto> origin, ''destination'' \<mapsto> destination, ''mode'' \<mapsto> mode] w
      = Some (JObj payload)
    \<and> map_of payload ''routes'' = Some (JArr (JObj route # more_routes))
    \<and> map_of route ''legs'' = Some (JArr (leg # more_legs))
    \<and> text_in leg ''distance'' = Inr distance_text
    \<and> text_in leg ''duration'' = Inr duration_text
    \<and> py_item leg ''steps'' = Inr (JArr steps)
    \<and> map step_parts (take 10 steps) = map Some parts
    \<longrightarrow> fst (get_directions api_key fo client origin destination mode w)
        = Inr (''\<newline>Route Summary: '' @
               py_str fo (field_or route ''summary'' ''Direct route'') @
               ''\<newline>Distance: '' @ py_str fo distance_text @
               ''\<newline>Duration: '' @ py_str fo duration_text @
               ''\<newline>Travel Mode: '' @ title mode @
               ''\<newline>\<newline>Turn-by-Turn Directions:\<newline>'' @
               concat (map (numbered_step fo) (enumerate 1 parts))))
   \<and> (map_of record k = None \<longrightarrow> py_str fo (field_or record k placeholder) = placeholder)
   \<and> (map_of record ''types'' = None \<longrightarrow> place_types record = [])
   \<and> (map_of record ''opening_hours'' = None
      \<longrightarrow> hours_ok fo record \<and> hours_section fo record = [])
   \<and> (map_of record ''weekday_text'' = None
      \<longrightarrow> weekday_ok fo record \<and> weekday_section fo record = [])
   \<and> (map_of record ''open_now'' = None \<longrightarrow> open_now_text fo record = ''No'')
   \<and> (map_of record ''reviews'' = None
      \<longrightarrow> reviews_ok fo record \<and> reviews_section fo record = [])"
proof -
  have a: "gateway_result api_key fo client ''place/textsearch/json''
        (search_places_params query location radius) w = Some (JObj payload)
    \<and> map_of payload ''results'' = Some (JArr places) \<and> places \<noteq> []
    \<and> list_all listed_place (take 5 places)
    \<longrightarrow> fst (search_places api_key fo client query location radius w)
        = Inr (join ''\<newline>---\<newline>'' (map (place_text fo) (take 5 places)))"
    by (simp add: search_places_result search_places_report_def no_data_def bindE_def
        places_loop_listed)
  have b: "gateway_result api_key fo client ''place/details/json''
        [''place_id'' \<mapsto> place_id, ''fields'' \<mapsto> place_details_fields] w = Some (JObj payload)
    \<and> map_of payload ''result'' = Some (JObj place) \<and> place \<noteq> []
    \<and> hours_ok fo place \<and> reviews_ok fo place
    \<longrightarrow> fst (get_place_details api_key fo client place_id w)
        = Inr (''\<newline>Name: '' @ py_str fo (field_or place ''name'' ''Unknown'') @
               ''\<newline>Address: '' @
               py_str fo (field_or place ''formatted_address'' ''Address not available'') @
               ''\<newline>Phone: '' @
               py_str fo (field_or place ''formatted_phone_number'' ''Phone not available'') @
               ''\<newline>Website: '' @
               py_str fo (field_or place ''website'' ''Website not available'') @
               ''\<newline>Rating: '' @ py_str fo (field_or place ''rating'' ''No rating'') @
               '' stars\<newline>'' @ hours_section fo place @ reviews_section fo place)"
    by (simp add: get_place_details_result details_report_ok details_head_def)
  have c: "mode \<in> set travel_modes
    \<and> gateway_result api_key fo client ''directions/json''
        [''origin'' \<mapsto> origin, ''destination'' \<mapsto> destination, ''mode'' \<mapsto> mode] w
      = Some (JObj payload)
    \<and> map_of payload ''routes'' = Some (JArr (JObj route # more_routes))
    \<and> map_of route ''legs'' = Some (JArr (leg # more_legs))
    \<and> text_in leg ''distance'' = Inr distance_text
    \<and> text_in leg ''duration'' = Inr duration_text
    \<and> py_item leg ''steps'' = Inr (JArr steps)
    \<and> map step_parts (take 10 steps) = map Some parts
    \<longrightarrow> fst (get_directions api_key fo client origin destination mode w)
        = Inr (''\<newline>Route Summary: '' @
               py_str fo (field_or route ''summary'' ''Direct route'') @
               ''\<newline>Distance: '' @ py_str fo distance_text @
               ''\<newline>Duration: '' @ py_str fo duration_text @
               ''\<newline>Travel Mode: '' @ title mode @
               ''\<newline>\<newline>Turn-by-Turn Directions:\<newline>'' @
               concat (map (numbered_step fo) (enumerate 1 parts)))"
  proof (intro impI, elim conjE)
    assume m: "mode \<in> set travel_modes"
      and g: "gateway_result api_key fo client ''directions/json''
        [''origin'' \<mapsto> origin, ''destination'' \<mapsto> destination, ''mode'' \<mapsto> mode] w
        = Some (JObj payload)"
      and r: "map_of payload ''routes'' = Some (JArr (JObj route # more_routes))"
      and l: "map_of route ''legs'' = Some (JArr (leg # more_legs))"
      and d: "text_in leg ''distance'' = Inr distance_text"
      and u: "text_in leg ''duration'' = Inr duration_text"
      and t: "py_item leg ''steps'' = Inr (JArr steps)"
      and p: "map step_parts (take 10 steps) = map Some parts"
    have s: "py_get (JObj route) ''summary'' (JStr ''Direct route'')
             = Inr (field_or route ''summary'' ''Direct route'')"
      by (simp add: field_or_def)
    from l have l': "py_item (JObj route) ''legs'' = Inr (JArr (leg # more_legs))"
      by simp
    from m g directions_report_parts [OF r s l' d u t p, of fo mode]
    show "fst (get_directions api_key fo client origin destination mode w)
        = Inr (''\<newline>Route Summary: '' @
               py_str fo (field_or route ''summary'' ''Direct route'') @
               ''\<newline>Distance: '' @ py_str fo distance_text @
               ''\<newline>Duration: '' @ py_str fo duration_text @
               ''\<newline>Travel Mode: '' @ title mode @
               ''\<newline>\<newline>Turn-by-Turn Directions:\<newline>'' @
               concat (map (numbered_step fo) (enumerate 1 parts)))"
      by (simp add: get_directions_result directions_text_def)
  qed
  have d: "map_of record k = None \<longrightarrow> py_str fo (field_or record k placeholder) = placeholder"
    by (simp add: field_or_def py_str_def)
  have e: "map_of record ''types'' = None \<longrightarrow> place_types record = []"
    by (simp add: place_types_def)
  have f: "map_of record ''opening_hours'' = None
      \<longrightarrow> hours_ok fo record \<and> hours_section fo record = []"
    by (simp add: hours_ok_def hours_section_def)
  have g: "map_of record ''weekday_text'' = None
      \<longrightarrow> weekday_ok fo record \<and> weekday_section fo record = []"
    by (simp add: weekday_ok_def weekday_section_def)
  have h: "map_of record ''open_now'' = None \<longrightarrow> open_now_text fo record = ''No''"
    by (simp add: open_now_text_def)
  have i: "map_of record ''reviews'' = None
      \<longrightarrow> reviews_ok fo record \<and> reviews_section fo record = []"
    by (simp add: reviews_ok_def reviews_section_def)
  from a b c d e f g h i show ?thesis
    by (intro conjI)
qed

theorem defaulted_fields_render_placeholders_witness:
  "list_all listed_place
     (take 5 [JObj [(''name'', JStr ''Cafe''), (''place_id'', JStr ''abc'')] :: string json])
   \<and> fst (search_places ''secret'' text_floats (mock bare_places) ''cafe'' None None fresh_world)
     = Inr (''\<newline>Name: Cafe'' @ ''\<newline>Address: Address not available'' @
            ''\<newline>Rating: No rating stars'' @ ''\<newline>Types: '' @
            ''\<newline>Place ID: abc\<newline>'')
   \<and> hours_ok text_floats
       [(''opening_hours'', JObj [
           (''open_now'', JBool True),
           (''weekday_text'', JArr [JStr ''Monday: 9-17'', JStr ''Tuesday: 9-17''])]),
        (''rating'', JInt 4)]
   \<and> reviews_ok text_floats
       [(''opening_hours'', JObj [
           (''open_now'', JBool True),
           (''weekday_text'', JArr [JStr ''Monday: 9-17'', JStr ''Tuesday: 9-17''])]),
        (''rating'', JInt 4)]
   \<and> fst (get_place_details ''secret'' text_floats (mock hours_place) ''abc'' fresh_world)
     = Inr (''\<newline>Name: Unknown'' @ ''\<newline>Address: Address not available'' @
            ''\<newline>Phone: Phone not available'' @ ''\<newline>Website: Website not available'' @
            ''\<newline>Rating: 4 stars\<newline>'' @
            ''\<newline>Opening Hours:\<newline>Monday: 9-17\<newline>Tuesday: 9-17'' @
            ''\<newline>Currently Open: Yes'')
   \<and> map step_parts (take 10 [toll_step :: string json])
     = map Some [(''Turn <b>left</b><div>Toll road</div>'', JStr ''0.2 mi'', JStr ''1 min'')]
   \<and> fst (get_directions ''secret'' text_floats (mock toll_route) ''A'' ''B'' ''walking''
            fresh_world)
     = Inr (''\<newline>Route Summary: Direct route'' @ ''\<newline>Distance: 0.2 mi'' @
            ''\<newline>Duration: 1 min'' @ ''\<newline>Travel Mode: Walking'' @
            ''\<newline>\<newline>Turn-by-Turn Directions:\<newline>'' @
            ''1. Turn left Toll road (0.2 mi, 1 min)\<newline>'')"
proof -
  let ?cafe = "[(''name'', JStr ''Cafe''), (''place_id'', JStr ''abc'')] :: (string \<times> string json) list"
  let ?place = "[(''opening_hours'', JObj [
           (''open_now'', JBool True),
           (''weekday_text'', JArr [JStr ''Monday: 9-17'', JStr ''Tuesday: 9-17''])]),
        (''rating'', JInt 4)] :: (string \<times> string json) list"
  let ?parts = "[(''Turn <b>left</b><div>Toll road</div>'', JStr ''0.2 mi'', JStr ''1 min'')]
     :: (string \<times> string json \<times> string json) list"
  have s1: "gateway_result ''secret'' text_floats (mock bare_places) ''place/textsearch/json''
       (search_places_params ''cafe'' None None) fresh_world
     = Some (JObj [(''status'', JStr ''OK''), (''results'', JArr [JObj ?cafe])])"
    by code_simp
  have s2: "list_all listed_place (take 5 [JObj ?cafe])"
    by code_simp
  have s3: "join ''\<newline>---\<newline>'' (map (place_text text_floats) (take 5 [JObj ?cafe]))
     = ''\<newline>Name: Cafe'' @ ''\<newline>Address: Address not available'' @
       ''\<newline>Rating: No rating stars'' @ ''\<newline>Types: '' @ ''\<newline>Place ID: abc\<newline>''"
    by code_simp
  have s: "fst (search_places ''secret'' text_floats (mock bare_places) ''cafe'' None None
             fresh_world)
     = Inr (join ''\<newline>---\<newline>'' (map (place_text text_floats) (take 5 [JObj ?cafe])))"
    using s1 s2
      defaulted_fields_render_placeholders [where api_key = "''secret''" and fo = text_floats
        and client = "mock bare_places" and query = "''cafe''" and location = None
        and radius = None and w = fresh_world
        and payload = "[(''status'', JStr ''OK''), (''results'', JArr [JObj ?cafe])]"
        and places = "[JObj ?cafe]"]
    by simp
  have d1: "gateway_result ''secret'' text_floats (mock hours_place) ''place/details/json''
       [''place_id'' \<mapsto> ''abc'', ''fields'' \<mapsto> place_details_fields] fresh_world
     = Some (JObj [(''status'', JStr ''OK''), (''result'', JObj ?place)])"
    by code_simp
  have d2: "hours_ok text_floats ?place"
    by code_simp
  have d3: "reviews_ok text_floats ?place"
    by code_simp
  have d4: "''\<newline>Name: '' @ py_str text_floats (field_or ?place ''name'' ''Unknown'') @
       ''\<newline>Address: '' @
       py_str text_floats (field_or ?place ''formatted_address'' ''Address not available'') @
       ''\<newline>Phone: '' @
       py_str text_floats (field_or ?place ''formatted_phone_number'' ''Phone not available'') @
       ''\<newline>Website: '' @
       py_str text_floats (field_or ?place ''website'' ''Website not available'') @
       ''\<newline>Rating: '' @ py_str text_floats (field_or ?place ''rating'' ''No rating'') @
       '' stars\<newline>'' @ hours_section text_floats ?place @ reviews_section text_floats ?place
     = ''\<newline>Name: Unknown'' @ ''\<newline>Address: Address not available'' @
       ''\<newline>Phone: Phone not available'' @ ''\<newline>Website: Website not available'' @
       ''\<newline>Rating: 4 stars\<newline>'' @
       ''\<newline>Opening Hours:\<newline>Monday: 9-17\<newline>Tuesday: 9-17'' @
       ''\<newline>Currently Open: Yes''"
    by code_simp
  have d: "fst (get_place_details ''secret'' text_floats (mock hours_place) ''abc'' fresh_world)
     = Inr (''\<newline>Name: '' @ py_str text_floats (field_or ?place ''name'' ''Unknown'') @
       ''\<newline>Address: '' @
       py_str text_floats (field_or ?place ''formatted_address'' ''Address not available'') @
       ''\<newline>Phone: '' @
       py_str text_floats (field_or ?place ''formatted_phone_number'' ''Phone not available'') @
       ''\<newline>Website: '' @
       py_str text_floats (field_or ?place ''website'' ''Website not available'') @
       ''\<newline>Rating: '' @ py_str text_floats (field_or ?place ''rating'' ''No rating'') @
       '' stars\<newline>'' @ hours_section text_floats ?place @ reviews_section text_floats ?place)"
    using d1 d2 d3
      defaulted_fields_render_placeholders [where api_key = "''secret''" and fo = text_floats
        and client = "mock hours_place" and place_id = "''abc''" and w = fresh_world
        and payload = "[(''status'', JStr ''OK''), (''result'', JObj ?place)]"
        and place = ?place]
    by simp
  have r0: "''walking'' \<in> set travel_modes"
    by code_simp
  have r1: "gateway_result ''secret'' text_floats (mock toll_route) ''directions/json''
       [''origin'' \<mapsto> ''A'', ''destination'' \<mapsto> ''B'', ''mode'' \<mapsto> ''walking''] fresh_world
     = Some (JObj [(''status'', JStr ''OK''),
                   (''routes'', JArr [JObj [(''legs'', JArr [toll_leg])]])])"
    by code_simp
  have r2: "text_in (toll_leg :: string json) ''distance'' = Inr (JStr ''0.2 mi'')"
    by code_simp
  have r3: "text_in (toll_leg :: string json) ''duration'' = Inr (JStr ''1 min'')"
    by code_simp
  have r4: "py_item (toll_leg :: string json) ''steps'' = Inr (JArr [toll_step])"
    by code_simp
  have r5: "map step_parts (take 10 [toll_step :: string json]) = map Some ?parts"
    by code_simp
  have r6: "''\<newline>Route Summary: '' @
       py_str text_floats (field_or [(''legs'', JArr [toll_leg])] ''summary'' ''Direct route'') @
       ''\<newline>Distance: '' @ py_str text_floats (JStr ''0.2 mi'') @
       ''\<newline>Duration: '' @ py_str text_floats (JStr ''1 min'') @
       ''\<newline>Travel Mode: '' @ title ''walking'' @
       ''\<newline>\<newline>Turn-by-Turn Directions:\<newline>'' @
       concat (map (numbered_step text_floats) (enumerate 1 ?parts))
     = ''\<newline>Route Summary: Direct route'' @ ''\<newline>Distance: 0.2 mi'' @
       ''\<newline>Duration: 1 min'' @ ''\<newline>Travel Mode: Walking'' @
       ''\<newline>\<newline>Turn-by-Turn Directions:\<newline>'' @
       ''1. Turn left Toll road (0.2 mi, 1 min)\<newline>''"
    by code_simp
  have r: "fst (get_directions ''secret'' text_floats (mock toll_route) ''A'' ''B'' ''walking''
             fresh_world)
     = Inr (''\<newline>Route Summary: '' @
       py_str text_floats (field_or [(''legs'', JArr [toll_leg])] ''summary'' ''Direct route'') @
       ''\<newline>Distance: '' @ py_str text_floats (JStr ''0.2 mi'') @
       ''\<newline>Duration: '' @ py_str text_floats (JStr ''1 min'') @
       ''\<newline>Travel Mode: '' @ title ''walking'' @
       ''\<newline>\<newline>Turn-by-Turn Directions:\<newline>'' @
       concat (map (numbered_step text_floats) (enumerate 1 ?parts)))"
    using r0 r1 r2 r3 r4 r5
      defaulted_fields_render_placeholders [where api_key = "''secret''" and fo = text_floats
        and client = "mock toll_route" and origin = "''A''" and destination = "''B''"
        and mode = "''walking''" and w = fresh_world
        and payload = "[(''status'', JStr ''OK''),
                        (''routes'', JArr [JObj [(''legs'', JArr [toll_leg])]])]"
        and route = "[(''legs'', JArr [toll_leg])]" and more_routes = "[]"
        and leg = toll_leg and more_legs = "[]"
        and distance_text = "JStr ''0.2 mi''" and duration_text = "JStr ''1 min''"
        and steps = "[toll_step]" and parts = ?parts]
    by simp
  from s s3 have s': "fst (search_places ''secret'' text_floats (mock bare_places) ''cafe'' None None
             fresh_world)
     = Inr (''\<newline>Name: Cafe'' @ ''\<newline>Address: Address not available'' @
       ''\<newline>Rating: No rating stars'' @ ''\<newline>Types: '' @ ''\<newline>Place ID: abc\<newline>'')"
    by (simp only:)
  from d d4 have d': "fst (get_place_details ''secret'' text_floats (mock hours_place) ''abc''
             fresh_world)
     = Inr (''\<newline>Name: Unknown'' @ ''\<newline>Address: Address not available'' @
       ''\<newline>Phone: Phone not available'' @ ''\<newline>Website: Website not available'' @
       ''\<newline>Rating: 4 stars\<newline>'' @
       ''\<newline>Opening Hours:\<newline>Monday: 9-17\<newline>Tuesday: 9-17'' @
       ''\<newline>Currently Open: Yes'')"
    by (simp only:)
  from r r6 have r': "fst (get_directions ''secret'' text_floats (mock toll_route) ''A'' ''B''
             ''walking'' fresh_world)
     = Inr (''\<newline>Route Summary: Direct route'' @ ''\<newline>Distance: 0.2 mi'' @
       ''\<newline>Duration: 1 min'' @ ''\<newline>Travel Mode: Walking'' @
       ''\<newline>\<newline>Turn-by-Turn Directions:\<newline>'' @
       ''1. Turn left Toll road (0.2 mi, 1 min)\<newline>'')"
    by (simp only:)
  from s2 s' d2 d3 d' r5 r' show ?thesis
    by (intro conjI)
qed

subsection \<open>The steps of get_directions\<close>






subsection \<open>The reviews of get_place_details\<close>

text \<open>
  C6. For a call of \<open>get_place_details\<close> whose result is a dict with a list of reviews,
  the first three of them dicts with an author name, a rating and a str text (and
  with opening hours the operation can render), the report is the five lines, the
  opening hours, and under "Recent Reviews:" one line for each of the first three
  reviews, none for a later one. The line of a review has the first 200 characters
  of its text and then three dots: a text of more than 200 characters is cut to 200.
  The dots follow a shorter text too.
\<close>

theorem reviews_cut_and_first_three:
  assumes g: "gateway_result api_key fo client ''place/details/json''
                [''place_id'' \<mapsto> place_id, ''fields'' \<mapsto> place_details_fields] w
              = Some (JObj payload)"
    and r: "map_of payload ''result'' = Some (JObj place)"
    and h: "hours_ok fo place"
    and v: "map_of place ''reviews'' = Some (JArr reviews)"
    and n: "reviews \<noteq> []"
    and k: "list_all review_ok (take 3 reviews)"
  shows "fst (get_place_details api_key fo client place_id w)
         = Inr (details_head fo place @ hours_section fo place @ ''\<newline>\<newline>Recent Reviews:'' @
                concat (map (review_line fo) (take 3 reviews)))
         \<and> length (take 3 reviews) = min 3 (length reviews)
         \<and> (map_of review ''text'' = Some (JStr t)
            \<longrightarrow> review_line fo (JObj review)
                = ''\<newline>- '' @ py_str fo (the (map_of review ''author_name'')) @ '' ('' @
                  py_str fo (the (map_of review ''rating'')) @ '' stars): '' @
                  take 200 t @ ''...\<newline>'')
         \<and> (200 < length t \<longrightarrow> length (take 200 t) = 200 \<and> take 200 t \<noteq> t)"
proof -
  from v have ne: "place \<noteq> []"
    by auto
  from v n k have ok: "reviews_ok fo place"
    by (simp add: reviews_ok_def)
  from v n have sec: "reviews_section fo place
      = ''\<newline>\<newline>Recent Reviews:'' @ concat (map (review_line fo) (take 3 reviews))"
    by (simp add: reviews_section_def)
  have res: "fst (get_place_details api_key fo client place_id w)
         = Inr (details_head fo place @ hours_section fo place @ ''\<newline>\<newline>Recent Reviews:'' @
                concat (map (review_line fo) (take 3 reviews)))"
    using g sec by (simp add: get_place_details_result details_report_ok [OF r ne h ok])
  have len: "length (take 3 reviews) = min 3 (length reviews)"
    by (simp add: min.commute)
  have line: "map_of review ''text'' = Some (JStr t)
            \<longrightarrow> review_line fo (JObj review)
                = ''\<newline>- '' @ py_str fo (the (map_of review ''author_name'')) @ '' ('' @
                  py_str fo (the (map_of review ''rating'')) @ '' stars): '' @
                  take 200 t @ ''...\<newline>''"
    by (simp add: review_line_def the_str_def)
  have cut: "200 < length t \<longrightarrow> length (take 200 t) = 200 \<and> take 200 t \<noteq> t"
  proof
    assume long: "200 < length t"
    then have a: "length (take 200 t) = 200"
      by simp
    with long have "length (take 200 t) \<noteq> length t"
      by simp
    then have "take 200 t \<noteq> t"
      by (rule contrapos_nn) simp
    with a show "length (take 200 t) = 200 \<and> take 200 t \<noteq> t"
      by simp
  qed
  from res len line cut show ?thesis
    by (intro conjI)
qed

theorem reviews_cut_and_first_three_witness:
  "hours_ok text_floats
     [(''name'', JStr ''Cafe''),
      (''reviews'', JArr [
         JObj [(''author_name'', JStr ''Ann''), (''rating'', JInt 5),
               (''text'', JStr (replicate 250 (CHR ''a'')))],
         JObj [(''author_name'', JStr ''Bob''), (''rating'', JInt 4), (''text'', JStr ''Fine'')],
         JObj [(''author_name'', JStr ''Cy''), (''rating'', JInt 3), (''text'', JStr ''Slow'')],
         JObj [(''author_name'', JStr ''Dee''), (''rating'', JInt 1),
               (''text'', JStr ''Closed'')]])]
   \<and> list_all review_ok (take 3
        [JObj [(''author_name'', JStr ''Ann''), (''rating'', JInt 5),
               (''text'', JStr (replicate 250 (CHR ''a'')))],
         JObj [(''author_name'', JStr ''Bob''), (''rating'', JInt 4), (''text'', JStr ''Fine'')],
         JObj [(''author_name'', JStr ''Cy''), (''rating'', JInt 3), (''text'', JStr ''Slow'')],
         JObj [(''author_name'', JStr ''Dee''), (''rating'', JInt 1),
               (''text'', JStr ''Closed'')] :: string json])
   \<and> (200 :: nat) < length (replicate 250 (CHR ''a''))
   \<and> fst (get_place_details ''secret'' text_floats (mock reviewed_place) ''abc'' fresh_world)
     = Inr (''\<newline>Name: Cafe'' @ ''\<newline>Address: Address not available'' @
            ''\<newline>Phone: Phone not available'' @ ''\<newline>Website: Website not available'' @
            ''\<newline>Rating: No rating stars\<newline>'' @ ''\<newline>\<newline>Recent Reviews:'' @
            ''\<newline>- Ann (5 stars): '' @ replicate 200 (CHR ''a'') @ ''...\<newline>'' @
            ''\<newline>- Bob (4 stars): Fine...\<newline>'' @
            ''\<newline>- Cy (3 stars): Slow...\<newline>'')
   \<and> length (take 200 (replicate 250 (CHR ''a''))) = 200"
proof -
  let ?reviews = "[JObj [(''author_name'', JStr ''Ann''), (''rating'', JInt 5),
               (''text'', JStr (replicate 250 (CHR ''a'')))],
         JObj [(''author_name'', JStr ''Bob''), (''rating'', JInt 4), (''text'', JStr ''Fine'')],
         JObj [(''author_name'', JStr ''Cy''), (''rating'', JInt 3), (''text'', JStr ''Slow'')],
         JObj [(''author_name'', JStr ''Dee''), (''rating'', JInt 1),
               (''text'', JStr ''Closed'')]] :: string json list"
  let ?place = "[(''name'', JStr ''Cafe''), (''reviews'', JArr ?reviews)]
     :: (string \<times> string json) list"
  have g: "gateway_result ''secret'' text_floats (mock reviewed_place) ''place/details/json''
       [''place_id'' \<mapsto> ''abc'', ''fields'' \<mapsto> place_details_fields] fresh_world
     = Some (JObj [(''status'', JStr ''OK''), (''result'', JObj ?place)])"
    by code_simp
  have r: "map_of [(''status'', JStr ''OK''), (''result'', JObj ?place)] ''result''
     = Some (JObj ?place)"
    by simp
  have h: "hours_ok text_floats ?place"
    by code_simp
  have v: "map_of ?place ''reviews'' = Some (JArr ?reviews)"
    by simp
  have n: "?reviews \<noteq> []"
    by simp
  have k: "list_all review_ok (take 3 ?reviews)"
    by code_simp
  have long: "(200 :: nat) < length (replicate 250 (CHR ''a''))"
    by simp
  have e: "details_head text_floats ?place @ hours_section text_floats ?place @
       ''\<newline>\<newline>Recent Reviews:'' @ concat (map (review_line text_floats) (take 3 ?reviews))
     = ''\<newline>Name: Cafe'' @ ''\<newline>Address: Address not available'' @
       ''\<newline>Phone: Phone not available'' @ ''\<newline>Website: Website not available'' @
       ''\<newline>Rating: No rating stars\<newline>'' @ ''\<newline>\<newline>Recent Reviews:'' @
       ''\<newline>- Ann (5 stars): '' @ replicate 200 (CHR ''a'') @ ''...\<newline>'' @
       ''\<newline>- Bob (4 stars): Fine...\<newline>'' @
       ''\<newline>- Cy (3 stars): Slow...\<newline>''"
    by code_simp
  note th = reviews_cut_and_first_three [OF g r h v n k,
      where t = "replicate 250 (CHR ''a'')"]
  from th have res: "fst (get_place_details ''secret'' text_floats (mock reviewed_place) ''abc''
        fresh_world)
     = Inr (details_head text_floats ?place @ hours_section text_floats ?place @
       ''\<newline>\<newline>Recent Reviews:'' @ concat (map (review_line text_floats) (take 3 ?reviews)))"
    by (rule conjunct1)
  from res e have res': "fst (get_place_details ''secret'' text_floats (mock reviewed_place)
        ''abc'' fresh_world)
     = Inr (''\<newline>Name: Cafe'' @ ''\<newline>Address: Address not available'' @
       ''\<newline>Phone: Phone not available'' @ ''\<newline>Website: Website not available'' @
       ''\<newline>Rating: No rating stars\<newline>'' @ ''\<newline>\<newline>Recent Reviews:'' @
       ''\<newline>- Ann (5 stars): '' @ replicate 200 (CHR ''a'') @ ''...\<newline>'' @
       ''\<newline>- Bob (4 stars): Fine...\<newline>'' @
       ''\<newline>- Cy (3 stars): Slow...\<newline>'')"
    by (simp only:)
  note imp = th [THEN conjunct2, THEN conjunct2, THEN conjunct2]
  from imp long have "length (take 200 (replicate 250 (CHR ''a''))) = 200
      \<and> take 200 (replicate 250 (CHR ''a'')) \<noteq> replicate 250 (CHR ''a'')"
    by (rule mp)
  then have c: "length (take 200 (replicate 250 (CHR ''a''))) = 200"
    by (rule conjunct1)
  from h k long res' c show ?thesis
    by (intro conjI)
qed

subsection \<open>The lines of calculate_distance_matrix\<close>

lemma element_line_cell:
  assumes r: "map_of payload ''rows'' = Some (JArr rows)" and i: "i < length rows"
    and e: "elements_of (rows ! i) = Some es" and j: "j < length es"
    and c: "cell_text fo (es ! j) = Some shown"
  shows "element_line fo (JObj payload) i j destination
         = Inr (''  To '' @ py_str fo destination @ '': '' @ shown @ ''\<newline>'')"
proof -
  from e have row: "py_item (rows ! i) ''elements'' = Inr (JArr es)"
    by (cases "rows ! i") (auto simp: elements_of_def split: option.splits json.splits)
  from c obtain status where s: "py_item (es ! j) ''status'' = Inr status"
    by (auto simp: cell_text_def split: sum.splits)
  show ?thesis
  proof (cases "py_eq_str status ''OK''")
    case False
    with c s have "shown = ''Route not available''"
      by (simp add: cell_text_def)
    with False r i row j s show ?thesis
      by (simp add: element_line_def bindE_def)
  next
    case True
    with c s obtain dt du where d: "text_in (es ! j) ''distance'' = Inr dt"
      and u: "text_in (es ! j) ''duration'' = Inr du"
      and t: "shown = py_str fo dt @ '' ('' @ py_str fo du @ '')''"
      by (auto simp: cell_text_def split: sum.splits)
    from d obtain dv where d1: "py_item (es ! j) ''distance'' = Inr dv"
      and d2: "py_item dv ''text'' = Inr dt"
      by (rule text_in_parts)
    from u obtain uv where u1: "py_item (es ! j) ''duration'' = Inr uv"
      and u2: "py_item uv ''text'' = Inr du"
      by (rule text_in_parts)
    from True r i row j s d1 d2 u1 u2 t show ?thesis
      by (simp add: element_line_def bindE_def)
  qed
qed

lemma destinations_loop_cells:
  assumes r: "map_of payload ''rows'' = Some (JArr rows)" and i: "i < length rows"
    and e: "elements_of (rows ! i) = Some es"
  shows "j + length ds \<le> length es \<Longrightarrow>
     (\<And>k. j \<le> k \<Longrightarrow> k < j + length ds \<Longrightarrow> cell_text fo (es ! k) \<noteq> None) \<Longrightarrow>
     destinations_loop fo (JObj payload) i j ds acc
     = Inr (acc @ concat (map (\<lambda>p. ''  To '' @ py_str fo (snd p) @ '': '' @
                                 the (cell_text fo (es ! fst p)) @ ''\<newline>'')
                            (enumerate j ds)))"
proof (induction ds arbitrary: j acc)
  case Nil
  then show ?case by simp
next
  case (Cons d ds)
  from Cons.prems(1) have j: "j < length es"
    by simp
  from Cons.prems(2) [of j] obtain shown where c: "cell_text fo (es ! j) = Some shown"
    by auto
  from Cons.prems(1) have le: "Suc j + length ds \<le> length es"
    by simp
  have rest: "\<And>k. Suc j \<le> k \<Longrightarrow> k < Suc j + length ds \<Longrightarrow> cell_text fo (es ! k) \<noteq> None"
    using Cons.prems(2) by simp
  show ?case
    by (simp add: element_line_cell [OF r i e j c] bindE_def Cons.IH [OF le rest] c)
qed

lemma map_enumerate_nth:
  "map f (enumerate 0 xs) = map (\<lambda>k. f (k, xs ! k)) [0..<length xs]"
proof -
  have "enumerate 0 xs = map (\<lambda>k. (k, xs ! k)) [0..<length xs]"
    by (rule nth_equalityI) (simp_all add: nth_enumerate_eq)
  then show ?thesis
    by (simp only: map_map comp_def)
qed

lemma row_ok_cells:
  assumes "row_ok fo n row"
  shows "\<exists>es. elements_of row = Some es \<and> n \<le> length es
              \<and> (\<forall>k<n. cell_text fo (es ! k) \<noteq> None)"
proof -
  from assms obtain es where e: "elements_of row = Some es" and n: "n \<le> length es"
    and a: "list_all (\<lambda>e. cell_text fo e \<noteq> None) (take n es)"
    by (auto simp: row_ok_def split: option.splits)
  have "\<forall>k<n. cell_text fo (es ! k) \<noteq> None"
  proof (intro allI impI)
    fix k
    assume k: "k < n"
    with n have "k < length (take n es)"
      by simp
    with a have "cell_text fo (take n es ! k) \<noteq> None"
      by (simp add: list_all_length)
    with k show "cell_text fo (es ! k) \<noteq> None"
      by simp
  qed
  with e n show ?thesis
    by blast
qed

lemma destinations_loop_row:
  assumes r: "map_of payload ''rows'' = Some (JArr rows)" and i: "i < length rows"
    and k: "row_ok fo (length ds) (rows ! i)"
  shows "destinations_loop fo (JObj payload) i 0 ds acc
         = Inr (acc @ concat (map (to_line fo ds (rows ! i)) [0..<length ds]))"
proof -
  from row_ok_cells [OF k] obtain es where e: "elements_of (rows ! i) = Some es"
    and n: "length ds \<le> length es"
    and c: "\<forall>k<length ds. cell_text fo (es ! k) \<noteq> None"
    by blast
  from n have le: "0 + length ds \<le> length es"
    by simp
  have all: "\<And>k. 0 \<le> k \<Longrightarrow> k < 0 + length ds \<Longrightarrow> cell_text fo (es ! k) \<noteq> None"
    using c by simp
  have f: "to_line fo ds (rows ! i)
           = (\<lambda>k. ''  To '' @ py_str fo (ds ! k) @ '': '' @ the (cell_text fo (es ! k)) @
                  ''\<newline>'')"
    by (rule ext) (simp add: to_line_def e)
  show ?thesis
    by (simp add: destinations_loop_cells [OF r i e le all] map_enumerate_nth f)
qed

lemma origins_loop_blocks:
  assumes r: "map_of payload ''rows'' = Some (JArr rows)"
    and d: "map_of payload ''destination_addresses'' = Some (JArr ds)"
  shows "i + length os \<le> length rows \<Longrightarrow>
     (\<And>k. i \<le> k \<Longrightarrow> k < i + length os \<Longrightarrow> row_ok fo (length ds) (rows ! k)) \<Longrightarrow>
     origins_loop fo (JObj payload) i os acc
     = Inr (acc @ concat (map (\<lambda>p. ''From: '' @ py_str fo (snd p) @ ''\<newline>'' @
                                 concat (map (to_line fo ds (rows ! fst p)) [0..<length ds]) @
                                 ''\<newline>'')
                            (enumerate i os)))"
proof (induction os arbitrary: i acc)
  case Nil
  then show ?case by simp
next
  case (Cons origin os)
  from Cons.prems(1) have i: "i < length rows"
    by simp
  from Cons.prems(2) [of i] have k: "row_ok fo (length ds) (rows ! i)"
    by simp
  from Cons.prems(1) have le: "Suc i + length os \<le> length rows"
    by simp
  have rest: "\<And>k. Suc i \<le> k \<Longrightarrow> k < Suc i + length os \<Longrightarrow> row_ok fo (length ds) (rows ! k)"
    using Cons.prems(2) by simp
  show ?case
    by (simp add: d bindE_def destinations_loop_row [OF r i k] Cons.IH [OF le rest])
qed

lemma matrix_report_blocks:
  assumes o: "map_of payload ''origin_addresses'' = Some (JArr os)"
    and d: "map_of payload ''destination_addresses'' = Some (JArr ds)"
    and r: "map_of payload ''rows'' = Some (JArr rows)"
    and n: "rows \<noteq> []"
    and l: "length os \<le> length rows"
    and k: "list_all (row_ok fo (length ds)) (take (length os) rows)"
  shows "calculate_distance_matrix_report fo mode (Some (JObj payload))
         = Inr (''Distance Matrix ('' @ title mode @ '' mode):\<newline>\<newline>'' @
                concat (map (from_block fo os ds rows) [0..<length os]))"
proof -
  from r have ne: "payload \<noteq> []"
    by auto
  from l have le: "0 + length os \<le> length rows"
    by simp
  have all: "\<And>k. 0 \<le> k \<Longrightarrow> k < 0 + length os \<Longrightarrow> row_ok fo (length ds) (rows ! k)"
  proof -
    fix j
    assume "j < 0 + length os"
    with l have j: "j < length (take (length os) rows)"
      by simp
    with k have "row_ok fo (length ds) (take (length os) rows ! j)"
      by (simp add: list_all_length)
    with j show "row_ok fo (length ds) (rows ! j)"
      by simp
  qed
  have f: "from_block fo os ds rows
           = (\<lambda>k. ''From: '' @ py_str fo (os ! k) @ ''\<newline>'' @
                concat (map (to_line fo ds (rows ! k)) [0..<length ds]) @ ''\<newline>'')"
    by (rule ext) (simp add: from_block_def)
  show ?thesis
    using ne r n o
    by (simp add: calculate_distance_matrix_report_def no_data_def bindE_def
        origins_loop_blocks [OF r d le all] map_enumerate_nth f)
qed

text \<open>
  C7. For a call of \<open>calculate_distance_matrix\<close> with a valid mode whose payload has the
  lists of origin and destination addresses and, in \<open>rows\<close>, a row for each origin with
  an element for each destination, every element with a status and, when its status
  is "OK", with the texts of distance and duration: the report is the title and, for
  each origin address in order, a "From:" line, a "To" line for each destination
  address in order, and an empty line. The "To" line of an element whose status is not
  "OK" reads "Route not available": nothing but the status of such an element is
  read, so that it needs neither distance nor duration and raises nothing.
\<close>

theorem matrix_lines_per_origin_and_destination:
  assumes m: "mode \<in> set travel_modes"
    and g: "gateway_result api_key fo client ''distancematrix/json''
              [''origins'' \<mapsto> join ''|'' origins, ''destinations'' \<mapsto> join ''|'' destinations,
               ''mode'' \<mapsto> mode] w
            = Some (JObj payload)"
    and o: "map_of payload ''origin_addresses'' = Some (JArr origin_addresses)"
    and d: "map_of payload ''destination_addresses'' = Some (JArr destination_addresses)"
    and r: "map_of payload ''rows'' = Some (JArr rows)"
    and n: "rows \<noteq> []"
    and l: "length origin_addresses \<le> length rows"
    and k: "list_all (row_ok fo (length destination_addresses))
              (take (length origin_addresses) rows)"
  shows "fst (calculate_distance_matrix api_key fo client origins destinations mode w)
         = Inr (''Distance Matrix ('' @ title mode @ '' mode):\<newline>\<newline>'' @
                concat (map (from_block fo origin_addresses destination_addresses rows)
                          [0..<length origin_addresses]))
         \<and> from_block fo origin_addresses destination_addresses rows i
           = ''From: '' @ py_str fo (origin_addresses ! i) @ ''\<newline>'' @
             concat (map (to_line fo destination_addresses (rows ! i))
                       [0..<length destination_addresses]) @ ''\<newline>''
         \<and> to_line fo destination_addresses row j
           = ''  To '' @ py_str fo (destination_addresses ! j) @ '': '' @
             the (cell_text fo (the (elements_of row) ! j)) @ ''\<newline>''
         \<and> (py_item element ''status'' = Inr status \<and> \<not> py_eq_str status ''OK''
            \<longrightarrow> cell_text fo element = Some ''Route not available'')
         \<and> (py_item element ''status'' = Inr (JStr ''OK'')
              \<and> text_in element ''distance'' = Inr distance_text
              \<and> text_in element ''duration'' = Inr duration_text
            \<longrightarrow> cell_text fo element
                = Some (py_str fo distance_text @ '' ('' @ py_str fo duration_text @ '')''))"
proof -
  have res: "fst (calculate_distance_matrix api_key fo client origins destinations mode w)
         = Inr (''Distance Matrix ('' @ title mode @ '' mode):\<newline>\<newline>'' @
                concat (map (from_block fo origin_addresses destination_addresses rows)
                          [0..<length origin_addresses]))"
    using m g
    by (simp add: calculate_distance_matrix_result matrix_report_blocks [OF o d r n l k])
  have blk: "from_block fo origin_addresses destination_addresses rows i
           = ''From: '' @ py_str fo (origin_addresses ! i) @ ''\<newline>'' @
             concat (map (to_line fo destination_addresses (rows ! i))
                       [0..<length destination_addresses]) @ ''\<newline>''"
    by (simp add: from_block_def)
  have line: "to_line fo destination_addresses row j
           = ''  To '' @ py_str fo (destination_addresses ! j) @ '': '' @
             the (cell_text fo (the (elements_of row) ! j)) @ ''\<newline>''"
    by (simp add: to_line_def)
  have bad: "py_item element ''status'' = Inr status \<and> \<not> py_eq_str status ''OK''
            \<longrightarrow> cell_text fo element = Some ''Route not available''"
    by (simp add: cell_text_def)
  have good: "py_item element ''status'' = Inr (JStr ''OK'')
              \<and> text_in element ''distance'' = Inr distance_text
              \<and> text_in element ''duration'' = Inr duration_text
            \<longrightarrow> cell_text fo element
                = Some (py_str fo distance_text @ '' ('' @ py_str fo duration_text @ '')'')"
    by (simp add: cell_text_def py_eq_str_def)
  from res blk line bad good show ?thesis
    by (intro conjI)
qed

theorem matrix_lines_per_origin_and_destination_witness:
  "''driving'' \<in> set travel_modes
   \<and> length [JStr ''New York'', JStr ''Boston'' :: string json] \<le> length (matrix_rows :: string json list)
   \<and> list_all (row_ok text_floats (length [JStr ''Philadelphia'', JStr ''Honolulu'' :: string json]))
       (take (length [JStr ''New York'', JStr ''Boston'' :: string json]) matrix_rows)
   \<and> py_item (JObj [(''status'', JStr ''ZERO_RESULTS'')] :: string json) ''status''
     = Inr (JStr ''ZERO_RESULTS'')
   \<and> \<not> py_eq_str (JStr ''ZERO_RESULTS'' :: string json) ''OK''
   \<and> cell_text text_floats (JObj [(''status'', JStr ''ZERO_RESULTS'')]) = Some ''Route not available''
   \<and> fst (calculate_distance_matrix ''secret'' text_floats (mock matrix_payload)
            [''New York'', ''Boston''] [''Philadelphia'', ''Honolulu''] ''driving'' fresh_world)
     = Inr (''Distance Matrix (Driving mode):\<newline>\<newline>'' @
            ''From: New York\<newline>'' @
            ''  To Philadelphia: 95 mi (1 hour 45 mins)\<newline>'' @
            ''  To Honolulu: Route not available\<newline>'' @ ''\<newline>'' @
            ''From: Boston\<newline>'' @
            ''  To Philadelphia: 300 mi (5 hours)\<newline>'' @
            ''  To Honolulu: Route not available\<newline>'' @ ''\<newline>'')"
proof -
  let ?os = "[JStr ''New York'', JStr ''Boston''] :: string json list"
  let ?ds = "[JStr ''Philadelphia'', JStr ''Honolulu''] :: string json list"
  let ?rows = "matrix_rows :: string json list"
  let ?payload = "[(''status'', JStr ''OK''), (''origin_addresses'', JArr ?os),
       (''destination_addresses'', JArr ?ds), (''rows'', JArr ?rows)]"
  let ?el = "JObj [(''status'', JStr ''ZERO_RESULTS'')] :: string json"
  have m: "''driving'' \<in> set travel_modes"
    by code_simp
  have g: "gateway_result ''secret'' text_floats (mock matrix_payload) ''distancematrix/json''
       [''origins'' \<mapsto> join ''|'' [''New York'', ''Boston''],
        ''destinations'' \<mapsto> join ''|'' [''Philadelphia'', ''Honolulu''],
        ''mode'' \<mapsto> ''driving''] fresh_world
     = Some (JObj ?payload)"
    by code_simp
  have o: "map_of ?payload ''origin_addresses'' = Some (JArr ?os)"
    by simp
  have d: "map_of ?payload ''destination_addresses'' = Some (JArr ?ds)"
    by simp
  have r: "map_of ?payload ''rows'' = Some (JArr ?rows)"
    by simp
  have n: "?rows \<noteq> []"
    by code_simp
  have l: "length ?os \<le> length ?rows"
    by code_simp
  have k: "list_all (row_ok text_floats (length ?ds)) (take (length ?os) ?rows)"
    by code_simp
  have s: "py_item ?el ''status'' = Inr (JStr ''ZERO_RESULTS'')"
    by simp
  have q: "\<not> py_eq_str (JStr ''ZERO_RESULTS'' :: string json) ''OK''"
    by code_simp
  have v: "''Distance Matrix ('' @ title ''driving'' @ '' mode):\<newline>\<newline>'' @
       concat (map (from_block text_floats ?os ?ds ?rows) [0..<length ?os])
     = ''Distance Matrix (Driving mode):\<newline>\<newline>'' @
       ''From: New York\<newline>'' @
       ''  To Philadelphia: 95 mi (1 hour 45 mins)\<newline>'' @
       ''  To Honolulu: Route not available\<newline>'' @ ''\<newline>'' @
       ''From: Boston\<newline>'' @
       ''  To Philadelphia: 300 mi (5 hours)\<newline>'' @
       ''  To Honolulu: Route not available\<newline>'' @ ''\<newline>''"
    by code_simp
  note th = matrix_lines_per_origin_and_destination [OF m g o d r n l k,
      where element = ?el and status = "JStr ''ZERO_RESULTS''"]
  from th have res: "fst (calculate_distance_matrix ''secret'' text_floats (mock matrix_payload)
        [''New York'', ''Boston''] [''Philadelphia'', ''Honolulu''] ''driving'' fresh_world)
     = Inr (''Distance Matrix ('' @ title ''driving'' @ '' mode):\<newline>\<newline>'' @
       concat (map (from_block text_floats ?os ?ds ?rows) [0..<length ?os]))"
    by (rule conjunct1)
  from res v have res': "fst (calculate_distance_matrix ''secret'' text_floats
        (mock matrix_payload) [''New York'', ''Boston''] [''Philadelphia'', ''Honolulu'']
        ''driving'' fresh_world)
     = Inr (''Distance Matrix (Driving mode):\<newline>\<newline>'' @
       ''From: New York\<newline>'' @
       ''  To Philadelphia: 95 mi (1 hour 45 mins)\<newline>'' @
       ''  To Honolulu: Route not available\<newline>'' @ ''\<newline>'' @
       ''From: Boston\<newline>'' @
       ''  To Philadelphia: 300 mi (5 hours)\<newline>'' @
       ''  To Honolulu: Route not available\<newline>'' @ ''\<newline>'')"
    by (simp only:)
  note imp = th [THEN conjunct2, THEN conjunct2, THEN conjunct2, THEN conjunct1]
  from s q have pre: "py_item ?el ''status'' = Inr (JStr ''ZERO_RESULTS'')
      \<and> \<not> py_eq_str (JStr ''ZERO_RESULTS'' :: string json) ''OK''"
    by (intro conjI)
  from imp pre have c: "cell_text text_floats ?el = Some ''Route not available''"
    by (rule mp)
  from m l k s q c res' show ?thesis
    by (intro conjI)
qed

end
